theory Spec2Isabelle
  imports Complex_Main
begin

section \<open>Numbers\<close>

text \<open>
  The source computes with JavaScript numbers (IEEE 754 doubles). A number of the model
  is \<open>NaN\<close>, one of the two infinities, or a finite number, which is a \<^typ>\<open>real\<close>:
  the operations follow JavaScript on \<open>NaN\<close> and the infinities, and are exact on finite
  numbers. Rounding, and the overflow of a finite result of arithmetic to an infinity,
  are not modelled; the two zeros are one, which counts as positive where a sign is
  needed (division by zero). A number read from text does overflow to an infinity.
  A state value that is either a number or the empty string \<open>''\<close> (an input field left
  blank) is an \<open>option\<close>, with \<open>None\<close> for the blank field.
\<close>

datatype jsnum = NaN | Infinity | NegInfinity | Finite real

definition isNegative :: "jsnum \<Rightarrow> bool" where
  "isNegative a = (case a of NegInfinity \<Rightarrow> True | Finite x \<Rightarrow> x < 0 | _ \<Rightarrow> False)"

definition signedInfinity :: "bool \<Rightarrow> jsnum" where
  "signedInfinity negative = (if negative then NegInfinity else Infinity)"

text \<open>
  The operators \<open>+\<close>, \<open>-\<close>, \<open>*\<close>, \<open>/\<close> and \<open><\<close>, \<open><=\<close> of JavaScript on numbers. A
  comparison with \<open>NaN\<close> is false.
\<close>

instantiation jsnum :: "{plus, minus, uminus, times, inverse, ord}"
begin

definition plus_jsnum :: "jsnum \<Rightarrow> jsnum \<Rightarrow> jsnum" where
  "a + b =
     (case a of
        NaN \<Rightarrow> NaN
      | Infinity \<Rightarrow> (case b of NaN \<Rightarrow> NaN | NegInfinity \<Rightarrow> NaN | _ \<Rightarrow> Infinity)
      | NegInfinity \<Rightarrow> (case b of NaN \<Rightarrow> NaN | Infinity \<Rightarrow> NaN | _ \<Rightarrow> NegInfinity)
      | Finite x \<Rightarrow> (case b of Finite y \<Rightarrow> Finite (x + y) | _ \<Rightarrow> b))"

definition uminus_jsnum :: "jsnum \<Rightarrow> jsnum" where
  "- a =
     (case a of NaN \<Rightarrow> NaN | Infinity \<Rightarrow> NegInfinity | NegInfinity \<Rightarrow> Infinity
      | Finite x \<Rightarrow> Finite (- x))"

definition minus_jsnum :: "jsnum \<Rightarrow> jsnum \<Rightarrow> jsnum" where
  "(a::jsnum) - b = a + (- b)"

definition times_jsnum :: "jsnum \<Rightarrow> jsnum \<Rightarrow> jsnum" where
  "a * b =
     (case (a, b) of
        (Finite x, Finite y) \<Rightarrow> Finite (x * y)
      | _ \<Rightarrow> if a = NaN \<or> b = NaN \<or> a = Finite 0 \<or> b = Finite 0 then NaN
             else signedInfinity (isNegative a \<noteq> isNegative b))"

definition divide_jsnum :: "jsnum \<Rightarrow> jsnum \<Rightarrow> jsnum" where
  "divide a b =
     (case (a, b) of
        (Finite x, Finite y) \<Rightarrow>
          if y = 0 then (if x = 0 then NaN else signedInfinity (x < 0)) else Finite (x / y)
      | (Finite x, Infinity) \<Rightarrow> Finite 0
      | (Finite x, NegInfinity) \<Rightarrow> Finite 0
      | (Infinity, Finite y) \<Rightarrow> signedInfinity (y < 0)
      | (NegInfinity, Finite y) \<Rightarrow> signedInfinity (\<not> y < 0)
      | _ \<Rightarrow> NaN)"

definition inverse_jsnum :: "jsnum \<Rightarrow> jsnum" where
  "inverse (a::jsnum) = divide (Finite 1) a"

definition less_jsnum :: "jsnum \<Rightarrow> jsnum \<Rightarrow> bool" where
  "a < b \<longleftrightarrow>
     (case (a, b) of
        (Finite x, Finite y) \<Rightarrow> x < y
      | (NegInfinity, Finite y) \<Rightarrow> True
      | (NegInfinity, Infinity) \<Rightarrow> True
      | (Finite x, Infinity) \<Rightarrow> True
      | _ \<Rightarrow> False)"

definition less_eq_jsnum :: "jsnum \<Rightarrow> jsnum \<Rightarrow> bool" where
  "(a::jsnum) \<le> b \<longleftrightarrow> a < b \<or> (a = b \<and> a \<noteq> NaN)"

instance ..

end

text \<open>
  \<open>Math.abs\<close>, \<open>Math.sqrt\<close>, \<open>Math.pow\<close> with an exponent that is a natural number,
  \<open>Math.max\<close> and \<open>Math.min\<close> of two numbers and of the elements of an array
  (\<open>Math.max(...chunk)\<close>; of no number at all they are \<open>-Infinity\<close> and \<open>Infinity\<close>).
\<close>

definition Math_abs :: "jsnum \<Rightarrow> jsnum" where
  "Math_abs a =
     (case a of NaN \<Rightarrow> NaN | Infinity \<Rightarrow> Infinity | NegInfinity \<Rightarrow> Infinity
      | Finite x \<Rightarrow> Finite \<bar>x\<bar>)"

definition Math_sqrt :: "jsnum \<Rightarrow> jsnum" where
  "Math_sqrt a =
     (case a of NaN \<Rightarrow> NaN | Infinity \<Rightarrow> Infinity | NegInfinity \<Rightarrow> NaN
      | Finite x \<Rightarrow> if x < 0 then NaN else Finite (sqrt x))"

definition Math_pow :: "jsnum \<Rightarrow> nat \<Rightarrow> jsnum" where
  "Math_pow a n =
     (if n = 0 then Finite 1
      else case a of
             NaN \<Rightarrow> NaN
           | Infinity \<Rightarrow> Infinity
           | NegInfinity \<Rightarrow> if even n then Infinity else NegInfinity
           | Finite x \<Rightarrow> Finite (x ^ n))"

definition Math_max :: "jsnum \<Rightarrow> jsnum \<Rightarrow> jsnum" where
  "Math_max a b = (if a = NaN \<or> b = NaN then NaN else if a < b then b else a)"

definition Math_min :: "jsnum \<Rightarrow> jsnum \<Rightarrow> jsnum" where
  "Math_min a b = (if a = NaN \<or> b = NaN then NaN else if b < a then b else a)"

definition Math_max_of :: "jsnum list \<Rightarrow> jsnum" where
  "Math_max_of xs = foldl Math_max NegInfinity xs"

definition Math_min_of :: "jsnum list \<Rightarrow> jsnum" where
  "Math_min_of xs = foldl Math_min Infinity xs"

text \<open>
  The number for a mathematical value that is read from text: beyond the largest
  double (from the midpoint between it and \<open>2^1024\<close> on) it is an infinity.
\<close>

definition toNumber :: "real \<Rightarrow> jsnum" where
  "toNumber v =
     (if 2 ^ 1024 - 2 ^ 970 \<le> v then Infinity
      else if v \<le> - (2 ^ 1024 - 2 ^ 970) then NegInfinity
      else Finite v)"

subsection \<open>Types and constants\<close>

datatype ChartType = XbarR | IMR | EWMA | CUSUM

datatype Phase = Phase1 | Phase2

text \<open>The interface \<open>DataPoint\<close>; an optional field that is absent is \<open>None\<close>.\<close>

record DataPoint =
  id_dp :: nat
  value_dp :: jsnum
  range_dp :: "jsnum option"
  originalValue :: "jsnum option"
  sampleSize :: "nat option"
  subgroup :: "jsnum list option"

text \<open>The table of constants; its entries are written as the reals they denote.\<close>

record Constants =
  A2 :: real
  D3 :: real
  D4 :: real
  d2 :: real

definition STAT_CONSTANTS :: "nat \<rightharpoonup> Constants" where
  "STAT_CONSTANTS = map_of
     [(2, \<lparr>A2 = 1.880, D3 = 0, D4 = 3.267, d2 = 1.128\<rparr>),
      (3, \<lparr>A2 = 1.023, D3 = 0, D4 = 2.574, d2 = 1.693\<rparr>),
      (4, \<lparr>A2 = 0.729, D3 = 0, D4 = 2.282, d2 = 2.059\<rparr>),
      (5, \<lparr>A2 = 0.577, D3 = 0, D4 = 2.114, d2 = 2.326\<rparr>),
      (6, \<lparr>A2 = 0.483, D3 = 0, D4 = 2.004, d2 = 2.534\<rparr>),
      (7, \<lparr>A2 = 0.419, D3 = 0.076, D4 = 1.924, d2 = 2.704\<rparr>),
      (8, \<lparr>A2 = 0.373, D3 = 0.136, D4 = 1.864, d2 = 2.847\<rparr>),
      (9, \<lparr>A2 = 0.337, D3 = 0.184, D4 = 1.816, d2 = 2.970\<rparr>),
      (10, \<lparr>A2 = 0.308, D3 = 0.223, D4 = 1.777, d2 = 3.078\<rparr>)]"

section \<open>Reading the input: \<open>parseLine\<close>\<close>

text \<open>
  A string is a list of code units; the model covers the code units below 256. The
  white space of JavaScript (\<open>\s\<close> in a regular expression, \<open>trim\<close>, and the
  characters \<open>parseFloat\<close> skips) is then tab, line feed, vertical tab, form feed,
  carriage return, space and the no-break space.
\<close>

definition isWhiteSpace :: "char \<Rightarrow> bool" where
  "isWhiteSpace c = (c \<in> set [CHR 0x09, CHR 0x0A, CHR 0x0B, CHR 0x0C, CHR 0x0D, CHR 0x20, CHR 0xA0])"

text \<open>The character class \<open>[,\t\s]\<close> of the separator.\<close>

definition isSeparator :: "char \<Rightarrow> bool" where
  "isSeparator c = (c = CHR '','' \<or> c = CHR 0x09 \<or> isWhiteSpace c)"

definition trim :: "string \<Rightarrow> string" where
  "trim s = rev (dropWhile isWhiteSpace (rev (dropWhile isWhiteSpace s)))"

text \<open>
  \<open>s.split(/[,\t\s]+/)\<close>: the pieces between the maximal runs of separators. A run at
  the start or at the end of the string leaves an empty piece there, and the empty
  string gives one empty piece.
\<close>

function splitSeparators :: "string \<Rightarrow> string list" where
  "splitSeparators [] = [[]]"
| "splitSeparators (c # cs) =
     (if isSeparator c then [] # splitSeparators (dropWhile isSeparator cs)
      else (case splitSeparators cs of
              [] \<Rightarrow> [[c]]
            | p # ps \<Rightarrow> (c # p) # ps))"
  by pat_completeness auto
termination
  by (relation "measure length") (auto simp: length_dropWhile_le le_imp_less_Suc)

definition isDigit :: "char \<Rightarrow> bool" where
  "isDigit c = (c \<in> set ''0123456789'')"

definition digitsValue :: "string \<Rightarrow> nat" where
  "digitsValue ds = foldl (\<lambda>a c. 10 * a + (of_char c - 48)) 0 ds"

text \<open>
  \<open>parseFloat\<close> is a built-in function of JavaScript, modelled after its definition in
  ECMAScript: it skips leading white space and takes the longest prefix of the rest
  that is a decimal literal (\<open>StrDecimalLiteral\<close>): an optional sign, then \<open>Infinity\<close>,
  or digits with an optional fraction, or a fraction that starts with the point, then
  an optional exponent, which counts only if it has a digit. Without such a prefix the
  result is \<open>NaN\<close>; the literal \<open>Infinity\<close> gives an infinity, and so does a decimal
  literal beyond the range of doubles (\<open>1e309\<close>); otherwise the result is the decimal
  value of the literal (not rounded). The scanners return the value together with the
  rest of the string that the literal does not cover.
\<close>

definition scanExponent :: "string \<Rightarrow> real \<times> string" where
  "scanExponent r =
     (case r of
        [] \<Rightarrow> (1, r)
      | c # r' \<Rightarrow>
          if c = CHR ''e'' \<or> c = CHR ''E'' then
            (let signed = (r' \<noteq> [] \<and> (hd r' = CHR ''+'' \<or> hd r' = CHR ''-''));
                 neg = (r' \<noteq> [] \<and> hd r' = CHR ''-'');
                 r'' = (if signed then tl r' else r');
                 ds = takeWhile isDigit r''
             in if ds = [] then (1, r)
                else (if neg then 1 / 10 ^ digitsValue ds else 10 ^ digitsValue ds,
                      dropWhile isDigit r''))
          else (1, r))"

definition scanUnsigned :: "string \<Rightarrow> jsnum \<times> string" where
  "scanUnsigned s =
     (if take 8 s = ''Infinity'' then (Infinity, drop 8 s)
      else
        (let ip = takeWhile isDigit s;
             r1 = dropWhile isDigit s;
             hasDot = (r1 \<noteq> [] \<and> hd r1 = CHR ''.'');
             fp = (if hasDot then takeWhile isDigit (tl r1) else []);
             r2 = (if hasDot then dropWhile isDigit (tl r1) else r1)
         in if ip = [] \<and> fp = [] then (NaN, s)
            else (let (f, r3) = scanExponent r2
                  in (toNumber ((real (digitsValue ip) + real (digitsValue fp) / 10 ^ length fp) * f),
                      r3))))"

definition scanSigned :: "string \<Rightarrow> jsnum \<times> string" where
  "scanSigned s =
     (case s of
        [] \<Rightarrow> (NaN, s)
      | c # r \<Rightarrow>
          if c = CHR ''-'' then (let (v, r') = scanUnsigned r in if v = NaN then (NaN, s) else (- v, r'))
          else if c = CHR ''+'' then (let (v, r') = scanUnsigned r in if v = NaN then (NaN, s) else (v, r'))
          else scanUnsigned s)"

definition parseFloat :: "string \<Rightarrow> jsnum" where
  "parseFloat s = fst (scanSigned (dropWhile isWhiteSpace s))"

definition isNaN :: "jsnum \<Rightarrow> bool" where
  "isNaN n = (n = NaN)"

definition parseLine :: "string \<Rightarrow> jsnum list" where
  "parseLine line =
     (let parts = splitSeparators (trim line)
      in filter (\<lambda>n. \<not> isNaN n) (map (\<lambda>p. parseFloat p) parts))"

text \<open>
  A token is a valid number when the decimal literal \<open>parseFloat\<close> finds covers all of
  it. A token has a numeric prefix when, after an optional sign, it starts with a
  digit, with a point and a digit, or with \<open>Infinity\<close>.
\<close>

definition validNumber :: "string \<Rightarrow> bool" where
  "validNumber t = (fst (scanSigned t) \<noteq> NaN \<and> snd (scanSigned t) = [])"

definition hasNumericPrefix :: "string \<Rightarrow> bool" where
  "hasNumericPrefix t =
     (let u = (if t \<noteq> [] \<and> (hd t = CHR ''+'' \<or> hd t = CHR ''-'') then tl t else t)
      in (u \<noteq> [] \<and> isDigit (hd u)) \<or>
         (2 \<le> length u \<and> u ! 0 = CHR ''.'' \<and> isDigit (u ! 1)) \<or>
         take 8 u = ''Infinity'')"

text \<open>
  A line seen as its tokens: a first token and then pairs of a separator run and the
  next token. A token is a non-empty string without separators; a separator run is a
  string of separators.
\<close>

definition isToken :: "string \<Rightarrow> bool" where
  "isToken t = (t \<noteq> [] \<and> (\<forall>c\<in>set t. \<not> isSeparator c))"

definition isSeparatorRun :: "string \<Rightarrow> bool" where
  "isSeparatorRun s = (\<forall>c\<in>set s. isSeparator c)"

fun joinTokens :: "string \<Rightarrow> (string \<times> string) list \<Rightarrow> string" where
  "joinTokens t [] = t"
| "joinTokens t ((sep, u) # rest) = t @ sep @ joinTokens u rest"

text \<open>
  The first two lines of \<open>processedData\<close>, which give \<open>allValues\<close>:
  \<open>rawData.split('\n')\<close>, the lines that are not blank, and the numbers of all of
  them in order.
\<close>

fun splitChar :: "char \<Rightarrow> string \<Rightarrow> string list" where
  "splitChar sep [] = [[]]"
| "splitChar sep (c # cs) =
     (if c = sep then [] # splitChar sep cs
      else (case splitChar sep cs of
              [] \<Rightarrow> [[c]]
            | p # ps \<Rightarrow> (c # p) # ps))"

definition allValuesOf :: "string \<Rightarrow> jsnum list" where
  "allValuesOf rawData =
     (let lines = filter (\<lambda>l. trim l \<noteq> []) (splitChar (CHR 0x0A) rawData)
      in concat (map parseLine lines))"

section \<open>Statistics of a list and of a process\<close>

subsection \<open>Mean and standard deviation\<close>

text \<open>\<open>data.length || 1\<close>: the length, or 1 when the length is 0.\<close>

definition meanDivisor :: "jsnum list \<Rightarrow> real" where
  "meanDivisor data = (if length data = 0 then 1 else real (length data))"

definition calculateMean :: "jsnum list \<Rightarrow> jsnum" where
  "calculateMean data = foldl (\<lambda>a b. a + b) (Finite 0) data / Finite (meanDivisor data)"

text \<open>
  \<open>data.length - 1 || 1\<close>: the subtraction is the one of JavaScript numbers, so the
  empty list gives \<open>-1\<close> (which is truthy), and only a list of one element gives 1.
\<close>

definition stdDevDivisor :: "jsnum list \<Rightarrow> real" where
  "stdDevDivisor data =
     (if int (length data) - 1 = 0 then 1 else real_of_int (int (length data) - 1))"

definition calculateStdDev :: "jsnum list \<Rightarrow> jsnum" where
  "calculateStdDev data =
     (let mean = calculateMean data
      in Math_sqrt (foldl (\<lambda>sq n. sq + Math_pow (n - mean) 2) (Finite 0) data
                   / Finite (stdDevDivisor data)))"

subsection \<open>Capability indices\<close>

text \<open>
  The computation at the head of \<open>StatisticsDashboard\<close>: from the mean and sigma of
  the chart statistics and the two specification limits it derives \<open>cp\<close> and \<open>cpk\<close>
  (\<open>cpu\<close> and \<open>cpl\<close> are locals of the guarded block). \<open>null\<close> is \<open>None\<close>. The test
  \<open>sigma > 0\<close> is false for \<open>NaN\<close>.
\<close>

record SpecLimits =
  usl :: "jsnum option"
  lsl :: "jsnum option"

record Capability =
  cp :: "jsnum option"
  cpk :: "jsnum option"

definition StatisticsDashboard :: "jsnum \<Rightarrow> jsnum \<Rightarrow> SpecLimits \<Rightarrow> Capability" where
  "StatisticsDashboard mean sigma specLimits =
     (let u = usl specLimits; l = lsl specLimits
      in if Finite 0 < sigma then
           (let cp' = (case (u, l) of (Some uv, Some lv) \<Rightarrow> Some ((uv - lv) / (Finite 6 * sigma))
                                    | _ \<Rightarrow> None);
                cpu = (case u of Some uv \<Rightarrow> Some ((uv - mean) / (Finite 3 * sigma)) | None \<Rightarrow> None);
                cpl = (case l of Some lv \<Rightarrow> Some ((mean - lv) / (Finite 3 * sigma)) | None \<Rightarrow> None);
                cpk' = (case (cpu, cpl) of
                          (Some a, Some b) \<Rightarrow> Some (Math_min a b)
                        | (Some a, None) \<Rightarrow> Some a
                        | (None, Some b) \<Rightarrow> Some b
                        | (None, None) \<Rightarrow> None)
            in \<lparr>cp = cp', cpk = cpk'\<rparr>)
         else \<lparr>cp = None, cpk = None\<rparr>)"

section \<open>Subgrouping: \<open>processedData\<close>\<close>

text \<open>
  The subgroup size is the state \<open>subgroupSize\<close>, set by \<open>parseInt\<close> of an input
  field: an integer, or \<open>NaN\<close> when the field does not start with digits. \<open>NaN\<close> is
  \<open>None\<close>. \<open>subgroupSize > 1\<close> is false for \<open>NaN\<close>.
\<close>

definition isGrouped :: "ChartType \<Rightarrow> int option \<Rightarrow> bool" where
  "isGrouped chartType subgroupSize =
     (chartType = XbarR \<or>
      ((chartType = EWMA \<or> chartType = CUSUM) \<and>
       (case subgroupSize of None \<Rightarrow> False | Some k \<Rightarrow> k > 1)))"

text \<open>
  \<open>size = chartType === 'xbar-r' ? Math.max(2, subgroupSize) : subgroupSize\<close>, read
  where \<open>isGrouped\<close> holds; \<open>Math.max(2, NaN)\<close> is \<open>NaN\<close>. On that branch the size is
  at least 2, so it is a natural number.
\<close>

definition groupSize :: "ChartType \<Rightarrow> int option \<Rightarrow> nat option" where
  "groupSize chartType subgroupSize =
     (case subgroupSize of
        None \<Rightarrow> None
      | Some k \<Rightarrow> Some (nat (if chartType = XbarR then max 2 k else k)))"

text \<open>\<open>xs.slice(a, b)\<close> for \<open>0 \<le> a \<le> b\<close>.\<close>

definition slice :: "'a list \<Rightarrow> nat \<Rightarrow> nat \<Rightarrow> 'a list" where
  "slice xs a b = take (b - a) (drop a xs)"

text \<open>\<open>Math.max(...chunk) - Math.min(...chunk)\<close>.\<close>

definition chunkRange :: "jsnum list \<Rightarrow> jsnum" where
  "chunkRange chunk = Math_max_of chunk - Math_min_of chunk"

text \<open>
  The loop \<open>for (let i = 0; i < allValues.length; i += size)\<close> with the list \<open>groups\<close>
  it fills. Every call of the source has \<open>size \<ge> 2\<close>; the test \<open>0 < size\<close> is not in
  the source and only makes the recursion well-founded.
\<close>

function groupLoop :: "nat \<Rightarrow> jsnum list \<Rightarrow> nat \<Rightarrow> DataPoint list \<Rightarrow> DataPoint list" where
  "groupLoop gsize allValues i groups =
     (if i < length allValues \<and> 0 < gsize then
        (let chunk = slice allValues i (i + gsize)
         in groupLoop gsize allValues (i + gsize)
              (if length chunk = gsize
               then groups @ [\<lparr>id_dp = length groups + 1,
                               value_dp = calculateMean chunk,
                               range_dp = Some (chunkRange chunk),
                               originalValue = None,
                               sampleSize = Some gsize,
                               subgroup = Some chunk\<rparr>]
               else groups))
      else groups)"
  by pat_completeness auto
termination
  by (relation "measure (\<lambda>(gsize, allValues, i, groups). length allValues - i)") auto

declare groupLoop.simps [simp del]

text \<open>
  \<open>processedData\<close>, from the parsed readings \<open>allValues\<close> (\<open>allValuesOf rawData\<close>). With \<open>size = NaN\<close> the loop
  body runs at most once, its chunk \<open>slice(0, NaN)\<close> is empty and is not pushed
  (\<open>0 === NaN\<close> is false), and \<open>i\<close> becomes \<open>NaN\<close>: no group.
\<close>

definition processedData :: "ChartType \<Rightarrow> int option \<Rightarrow> jsnum list \<Rightarrow> DataPoint list" where
  "processedData chartType subgroupSize allValues =
     (if isGrouped chartType subgroupSize then
        (case groupSize chartType subgroupSize of
           None \<Rightarrow> []
         | Some gsize \<Rightarrow> groupLoop gsize allValues 0 [])
      else map (\<lambda>(i, val). \<lparr>id_dp = i + 1, value_dp = val, range_dp = None,
                              originalValue = Some val, sampleSize = None,
                              subgroup = None\<rparr>)
               (enumerate 0 allValues))"

text \<open>
  The datasheet (\<open>DataGridWorkspace\<close>) groups the same readings for its preview table
  with a size of its own: \<open>chartType === 'xbar-r' ? Math.max(2, subgroupSize || 5) :
  (subgroupSize || 1)\<close>, where \<open>subgroupSize || d\<close> is \<open>d\<close> for 0 and for \<open>NaN\<close>.
\<close>

definition previewSize :: "ChartType \<Rightarrow> int option \<Rightarrow> int" where
  "previewSize chartType subgroupSize =
     (if chartType = XbarR
      then max 2 (case subgroupSize of None \<Rightarrow> 5 | Some k \<Rightarrow> if k = 0 then 5 else k)
      else (case subgroupSize of None \<Rightarrow> 1 | Some k \<Rightarrow> if k = 0 then 1 else k))"

section \<open>Chart statistics: \<open>chartStats\<close>\<close>

text \<open>
  The inputs of \<open>chartStats\<close> other than \<open>processedData\<close>: the component's state.
  \<open>targetMean\<close> and \<open>targetSigma\<close> are a number or \<open>''\<close>. The four tunables are set
  by \<open>parseFloat\<close> of their input fields, so each can be \<open>NaN\<close> (a field left empty).
\<close>

record Config =
  chartType :: ChartType
  phase :: Phase
  targetMean :: "jsnum option"
  targetSigma :: "jsnum option"
  lambda :: jsnum
  ewmaL :: jsnum
  cusumHParam :: jsnum
  cusumKParam :: jsnum

text \<open>
  The state \<open>App\<close> starts with (\<open>useState\<close>): the default chart is I-MR in phase 1, no
  baseline is supplied, and the subgroup size is 1.
\<close>

definition initialConfig :: Config where
  "initialConfig =
     \<lparr>chartType = IMR, phase = Phase1, targetMean = None, targetSigma = None,
      lambda = Finite 0.1, ewmaL = Finite 2.7, cusumHParam = Finite 5,
      cusumKParam = Finite 0.5\<rparr>"

definition initialSubgroupSize :: "int option" where
  "initialSubgroupSize = Some 1"

text \<open>
  A control limit is a number, or (EWMA) an array with one number per point. A chart
  carries its points \<open>{x, y}\<close>, its limits and centre line, and for CUSUM the overlay
  of the observations (\<open>secondarySeries[0].data\<close>) with its target
  (\<open>secondaryMeta.target\<close>). The fields that only label or colour the drawing
  (\<open>title\<close>, \<open>yLabel\<close>, \<open>plotType\<close>, \<open>barColor\<close>, \<open>color\<close>, \<open>label\<close>) are left out.
\<close>

datatype Limit = Scalar jsnum | PerPoint "jsnum list"

record Chart =
  data :: "(nat \<times> jsnum) list"
  ucl :: Limit
  lcl :: Limit
  cl :: jsnum
  secondarySeries :: "(nat \<times> jsnum) list option"
  secondaryTarget :: "jsnum option"

text \<open>
  The result of \<open>chartStats\<close>. A chart that is \<open>null\<close> or not a field of the returned
  object is \<open>None\<close>. (The result for no data also has fields \<open>ucl\<close>, \<open>lcl\<close>, \<open>cl\<close>,
  all 0, which nothing reads.)
\<close>

record Stats =
  mainChart :: "Chart option"
  secondChart :: "Chart option"
  sigma :: jsnum
  mean :: jsnum

definition usePhase2 :: "Config \<Rightarrow> bool" where
  "usePhase2 cfg = (phase cfg = Phase2 \<and> targetMean cfg \<noteq> None \<and> targetSigma cfg \<noteq> None)"

text \<open>The moving ranges: \<open>for (i = 1; i < values.length; i++) mrs.push(|values[i] - values[i-1]|)\<close>.\<close>

definition movingRanges :: "jsnum list \<Rightarrow> jsnum list" where
  "movingRanges values = map (\<lambda>i. Math_abs (values ! i - values ! (i - 1))) [1..<length values]"

text \<open>\<open>STAT_CONSTANTS[n] || STAT_CONSTANTS[2]\<close>.\<close>

definition constantsFor :: "nat \<Rightarrow> Constants" where
  "constantsFor n = (case STAT_CONSTANTS n of Some c \<Rightarrow> c | None \<Rightarrow> the (STAT_CONSTANTS 2))"

text \<open>\<open>d.range || 0\<close>: 0 when the field is absent, 0 or \<open>NaN\<close>.\<close>

definition rangeOrZero :: "DataPoint \<Rightarrow> jsnum" where
  "rangeOrZero d =
     (case range_dp d of
        None \<Rightarrow> Finite 0
      | Some r \<Rightarrow> if r = NaN \<or> r = Finite 0 then Finite 0 else r)"

text \<open>\<open>processedData[0]?.sampleSize || 2\<close>: 2 when the field is absent or 0.\<close>

definition sampleSizeOf :: "DataPoint list \<Rightarrow> nat" where
  "sampleSizeOf pd =
     (case pd of
        [] \<Rightarrow> 2
      | d # _ \<Rightarrow> (case sampleSize d of None \<Rightarrow> 2 | Some k \<Rightarrow> if k = 0 then 2 else k))"

text \<open>
  The EWMA loop \<open>values.forEach((x, i) => ...)\<close>: the state is the running \<open>z\<close> and the
  three arrays it appends to.
\<close>

record EwmaState =
  z :: jsnum
  ewmaData :: "(nat \<times> jsnum) list"
  uclTime :: "jsnum list"
  lclTime :: "jsnum list"

definition ewmaTerm :: "jsnum \<Rightarrow> nat \<Rightarrow> jsnum" where
  "ewmaTerm lam i =
     Math_sqrt ((lam / (Finite 2 - lam)) * (Finite 1 - Math_pow (Finite 1 - lam) (2 * (i + 1))))"

fun ewmaForEach :: "jsnum \<Rightarrow> jsnum \<Rightarrow> jsnum \<Rightarrow> jsnum \<Rightarrow> nat \<Rightarrow> jsnum list \<Rightarrow> EwmaState \<Rightarrow> EwmaState" where
  "ewmaForEach lam L mu sg i [] st = st"
| "ewmaForEach lam L mu sg i (x # xs) st =
     (let z' = lam * x + (Finite 1 - lam) * z st;
          term = ewmaTerm lam i
      in ewmaForEach lam L mu sg (i + 1) xs
           \<lparr>z = z',
            ewmaData = ewmaData st @ [(i + 1, z')],
            uclTime = uclTime st @ [mu + L * sg * term],
            lclTime = lclTime st @ [mu - L * sg * term]\<rparr>)"

text \<open>The CUSUM loop: the state is the two sums \<open>cp\<close>, \<open>cm\<close> and the two arrays.\<close>

record CusumState =
  cplus :: jsnum
  cminus :: jsnum
  cpData :: "(nat \<times> jsnum) list"
  cmData :: "(nat \<times> jsnum) list"

fun cusumForEach :: "jsnum \<Rightarrow> jsnum \<Rightarrow> nat \<Rightarrow> jsnum list \<Rightarrow> CusumState \<Rightarrow> CusumState" where
  "cusumForEach mu K i [] st = st"
| "cusumForEach mu K i (x # xs) st =
     (let cp' = Math_max (Finite 0) (x - (mu + K) + cplus st);
          cm' = Math_max (Finite 0) ((mu - K) - x + cminus st)
      in cusumForEach mu K (i + 1) xs
           \<lparr>cplus = cp', cminus = cm',
            cpData = cpData st @ [(i + 1, cp')],
            cmData = cmData st @ [(i + 1, cm')]\<rparr>)"

text \<open>
  The values a loop with one running value emits: from the start value \<open>s\<close>, each
  element \<open>x\<close> turns the running value \<open>v\<close> into \<open>f v x\<close>, which is emitted. The EWMA and
  CUSUM loops are compared with it.
\<close>

fun recurrence :: "('s \<Rightarrow> 'a \<Rightarrow> 's) \<Rightarrow> 's \<Rightarrow> 'a list \<Rightarrow> 's list" where
  "recurrence f s [] = []"
| "recurrence f s (x # xs) = f s x # recurrence f (f s x) xs"

definition chartStats :: "Config \<Rightarrow> DataPoint list \<Rightarrow> Stats" where
  "chartStats cfg pd =
     (if length pd = 0
      then \<lparr>mainChart = None, secondChart = None, sigma = Finite 0, mean = Finite 0\<rparr>
      else
        (let values = map value_dp pd
         in case chartType cfg of
           IMR \<Rightarrow>
             (let mu = (if usePhase2 cfg then the (targetMean cfg) else calculateMean values);
                  mrs = movingRanges values;
                  meanMR = calculateMean mrs;
                  sg = (if usePhase2 cfg then the (targetSigma cfg) else meanMR / Finite 1.128)
              in \<lparr>mainChart = Some \<lparr>data = map (\<lambda>d. (id_dp d, value_dp d)) pd,
                                    ucl = Scalar (mu + Finite 3 * sg),
                                    lcl = Scalar (mu - Finite 3 * sg),
                                    cl = mu, secondarySeries = None, secondaryTarget = None\<rparr>,
                  secondChart = Some \<lparr>data = map (\<lambda>(i, mr). (i + 2, mr)) (enumerate 0 mrs),
                                      ucl = Scalar (Finite 3.267 * meanMR), lcl = Scalar (Finite 0),
                                      cl = meanMR, secondarySeries = None,
                                      secondaryTarget = None\<rparr>,
                  sigma = sg, mean = mu\<rparr>)
         | XbarR \<Rightarrow>
             (let ranges = map rangeOrZero pd;
                  meanVal = (if usePhase2 cfg then the (targetMean cfg) else calculateMean values);
                  meanRange = calculateMean ranges;
                  n = sampleSizeOf pd;
                  constants = constantsFor n;
                  sg = meanRange / Finite (d2 constants)
              in \<lparr>mainChart = Some \<lparr>data = map (\<lambda>d. (id_dp d, value_dp d)) pd,
                                    ucl = Scalar (meanVal + Finite (A2 constants) * meanRange),
                                    lcl = Scalar (meanVal - Finite (A2 constants) * meanRange),
                                    cl = meanVal, secondarySeries = None,
                                    secondaryTarget = None\<rparr>,
                  secondChart = Some \<lparr>data = map (\<lambda>(i, r). (i + 1, r)) (enumerate 0 ranges),
                                      ucl = Scalar (Finite (D4 constants) * meanRange),
                                      lcl = Scalar (Finite (D3 constants) * meanRange),
                                      cl = meanRange, secondarySeries = None,
                                      secondaryTarget = None\<rparr>,
                  sigma = sg, mean = meanVal\<rparr>)
         | EWMA \<Rightarrow>
             (let mu = (if usePhase2 cfg then the (targetMean cfg) else calculateMean values);
                  sg = (if usePhase2 cfg then the (targetSigma cfg) else calculateStdDev values);
                  L = ewmaL cfg;
                  st = ewmaForEach (lambda cfg) L mu sg 0 values
                         \<lparr>z = mu, ewmaData = [], uclTime = [], lclTime = []\<rparr>
              in \<lparr>mainChart = Some \<lparr>data = ewmaData st,
                                    ucl = PerPoint (uclTime st), lcl = PerPoint (lclTime st),
                                    cl = mu, secondarySeries = None, secondaryTarget = None\<rparr>,
                  secondChart = None,
                  sigma = sg, mean = mu\<rparr>)
         | CUSUM \<Rightarrow>
             (let mu = (if usePhase2 cfg then the (targetMean cfg) else calculateMean values);
                  sg = (if usePhase2 cfg then the (targetSigma cfg) else calculateStdDev values);
                  K = cusumKParam cfg * sg;
                  H = cusumHParam cfg * sg;
                  st = cusumForEach mu K 0 values
                         \<lparr>cplus = Finite 0, cminus = Finite 0, cpData = [], cmData = []\<rparr>;
                  obs = map (\<lambda>(i, v). (i + 1, v)) (enumerate 0 values)
              in \<lparr>mainChart = Some \<lparr>data = cpData st, ucl = Scalar H, lcl = Scalar (Finite 0),
                                    cl = Finite 0,
                                    secondarySeries = Some obs, secondaryTarget = Some mu\<rparr>,
                  secondChart = Some \<lparr>data = cmData st, ucl = Scalar H, lcl = Scalar (Finite 0),
                                      cl = Finite 0,
                                      secondarySeries = Some obs, secondaryTarget = Some mu\<rparr>,
                  sigma = sg, mean = mu\<rparr>)))"

section \<open>Properties of the arithmetic helpers\<close>

lemma Finite_plus [simp]: "Finite a + Finite b = Finite (a + b)"
  by (simp add: plus_jsnum_def)

lemma Finite_uminus [simp]: "- Finite a = Finite (- a)"
  by (simp add: uminus_jsnum_def)

lemma Finite_minus [simp]: "Finite a - Finite b = Finite (a - b)"
  by (simp add: minus_jsnum_def)

lemma Finite_times [simp]: "Finite a * Finite b = Finite (a * b)"
  by (simp add: times_jsnum_def)

lemma Finite_divide [simp]: "b \<noteq> 0 \<Longrightarrow> Finite a / Finite b = Finite (a / b)"
  by (simp add: divide_jsnum_def)

lemma Finite_less [simp]: "Finite a < Finite b \<longleftrightarrow> a < b"
  by (simp add: less_jsnum_def)

lemma Finite_less_eq [simp]: "Finite a \<le> Finite b \<longleftrightarrow> a \<le> b"
  by (auto simp: less_eq_jsnum_def)

lemma NaN_less [simp]: "\<not> a < NaN" "\<not> NaN < a"
  by (cases a; simp add: less_jsnum_def)+

lemma NaN_less_eq [simp]: "\<not> a \<le> NaN" "\<not> NaN \<le> a"
  by (auto simp: less_eq_jsnum_def)

lemma NaN_plus [simp]: "NaN + a = NaN" "a + NaN = NaN"
  by (cases a; simp add: plus_jsnum_def)+

lemma NaN_minus [simp]: "NaN - a = NaN" "a - NaN = NaN"
  by (simp_all add: minus_jsnum_def uminus_jsnum_def)

lemma NaN_times [simp]: "NaN * a = NaN" "a * NaN = NaN"
  by (cases a; simp add: times_jsnum_def)+

lemma NaN_divide [simp]: "NaN / a = NaN" "a / NaN = NaN"
  by (cases a; simp add: divide_jsnum_def)+

lemma Math_abs_Finite [simp]: "Math_abs (Finite a) = Finite \<bar>a\<bar>"
  by (simp add: Math_abs_def)

lemma Math_sqrt_Finite [simp]: "0 \<le> a \<Longrightarrow> Math_sqrt (Finite a) = Finite (sqrt a)"
  by (simp add: Math_sqrt_def)

lemma Math_pow_Finite [simp]: "Math_pow (Finite a) n = Finite (a ^ n)"
  by (simp add: Math_pow_def)

lemma Math_max_Finite [simp]: "Math_max (Finite a) (Finite b) = Finite (max a b)"
  by (simp add: Math_max_def max_def)

lemma Math_min_Finite [simp]: "Math_min (Finite a) (Finite b) = Finite (min a b)"
  by (simp add: Math_min_def min_def)

lemma Math_max_NaN [simp]: "Math_max a NaN = NaN" "Math_max NaN a = NaN"
  by (simp_all add: Math_max_def)

lemma Math_max_NegInfinity [simp]: "Math_max NegInfinity (Finite a) = Finite a"
  by (simp add: Math_max_def less_jsnum_def)

lemma Math_min_Infinity [simp]: "Math_min Infinity (Finite a) = Finite a"
  by (simp add: Math_min_def less_jsnum_def)

lemma foldl_plus_Finite:
  "foldl (\<lambda>a b. a + b) (Finite s) (map Finite xs) = Finite (s + sum_list xs)"
  by (induction xs arbitrary: s) simp_all

lemma meanDivisor_pos: "0 < meanDivisor xs"
  by (simp add: meanDivisor_def)

lemma stdDevDivisor_nonzero: "stdDevDivisor xs \<noteq> 0"
  by (simp add: stdDevDivisor_def)

lemma calculateMean_Finite:
  "xs \<noteq> [] \<Longrightarrow> calculateMean (map Finite xs) = Finite (sum_list xs / real (length xs))"
  by (simp add: calculateMean_def meanDivisor_def foldl_plus_Finite)

lemma foldl_squares_Finite:
  "foldl (\<lambda>sq n. sq + Math_pow (n - Finite m) 2) (Finite s) (map Finite xs)
     = Finite (s + (\<Sum>x\<leftarrow>xs. (x - m) ^ 2))"
  by (induction xs arbitrary: s) simp_all

lemma calculateStdDev_Finite:
  assumes "xs \<noteq> []"
  shows "calculateStdDev (map Finite xs)
           = Finite (sqrt ((\<Sum>x\<leftarrow>xs. (x - sum_list xs / real (length xs)) ^ 2)
                           / stdDevDivisor (map Finite xs)))"
    and "0 \<le> (\<Sum>x\<leftarrow>xs. (x - sum_list xs / real (length xs)) ^ 2)
               / stdDevDivisor (map Finite xs)"
proof -
  have s: "0 \<le> (\<Sum>x\<leftarrow>xs. (x - m) ^ 2)" for m :: real
    by (rule sum_list_nonneg) auto
  have d: "0 < stdDevDivisor (map Finite xs)"
    using assms by (cases xs) (simp_all add: stdDevDivisor_def)
  from s d show nn: "0 \<le> (\<Sum>x\<leftarrow>xs. (x - sum_list xs / real (length xs)) ^ 2)
               / stdDevDivisor (map Finite xs)"
    by simp
  from d have d': "stdDevDivisor (map Finite xs) \<noteq> 0" by simp
  show "calculateStdDev (map Finite xs)
           = Finite (sqrt ((\<Sum>x\<leftarrow>xs. (x - sum_list xs / real (length xs)) ^ 2)
                           / stdDevDivisor (map Finite xs)))"
    using nn d'
    by (simp add: calculateStdDev_def calculateMean_Finite [OF assms] foldl_squares_Finite)
qed

lemma calculateStdDev_single: "calculateStdDev [Finite x] = Finite 0"
  by (simp add: calculateStdDev_def calculateMean_def meanDivisor_def stdDevDivisor_def)

section \<open>Capability indices\<close>



section \<open>A single reading\<close>

text \<open>
  Claim C9 fails as stated: a line with the text \<open>Infinity\<close>, or with a decimal literal
  beyond the range of doubles such as \<open>1e309\<close>, is one reading, the number \<open>Infinity\<close>,
  and the standard deviation of that one reading is \<open>NaN\<close>, not 0: the mean is
  \<open>Infinity\<close>, and \<open>Infinity - Infinity\<close> is \<open>NaN\<close>, as are its square, the quotient and
  the square root. For EWMA in phase 1 the sigma of the chart statistics of this one
  reading is \<open>NaN\<close>.
\<close>

theorem single_infinite_reading_counterexample:
  "parseLine ''Infinity'' = [Infinity] \<and> parseLine ''1e309'' = [Infinity] \<and>
   calculateStdDev [Infinity] = NaN \<and>
   sigma (chartStats (initialConfig\<lparr>chartType := EWMA\<rparr>)
            (processedData EWMA initialSubgroupSize [Infinity])) = NaN"
proof -
  have p1: "parseLine ''Infinity'' = [Infinity]"
    by (simp add: parseLine_def trim_def isWhiteSpace_def isSeparator_def parseFloat_def
        scanSigned_def scanUnsigned_def isNaN_def)
  have big: "(2::real) ^ 1024 - 2 ^ 970 \<le> 10 ^ 309"
    by simp
  have p2: "parseLine ''1e309'' = [Infinity]"
    using big
    by (simp add: parseLine_def trim_def isWhiteSpace_def isSeparator_def parseFloat_def
        scanSigned_def scanUnsigned_def scanExponent_def isDigit_def digitsValue_def isNaN_def
        toNumber_def Let_def)
  have s: "calculateStdDev [Infinity] = NaN"
    by (simp add: calculateStdDev_def calculateMean_def meanDivisor_def stdDevDivisor_def
        plus_jsnum_def minus_jsnum_def uminus_jsnum_def divide_jsnum_def signedInfinity_def
        Math_pow_def Math_sqrt_def)
  have c: "sigma (chartStats (initialConfig\<lparr>chartType := EWMA\<rparr>)
            (processedData EWMA initialSubgroupSize [Infinity])) = NaN"
    by (simp add: processedData_def isGrouped_def initialSubgroupSize_def initialConfig_def
        chartStats_def usePhase2_def Let_def s)
  from p1 p2 s c show ?thesis by (intro conjI)
qed

text \<open>
  Claim C9, amended. The standard deviation of a list of one finite reading is exactly
  0: its divisor \<open>data.length - 1 || 1\<close> is 1 there, and neither this divisor nor the
  one of the mean is zero for a list of fewer than two readings. For EWMA and CUSUM in
  phase 1 the sigma of the chart statistics of one finite reading is therefore 0, and
  both capability indices computed from it are \<open>null\<close>.
\<close>

theorem single_reading_sigma:
  "calculateStdDev [Finite x] = Finite 0 \<and>
   stdDevDivisor [Finite x] = 1 \<and> meanDivisor [Finite x] = 1 \<and>
   (\<forall>xs. length xs < 2 \<longrightarrow> stdDevDivisor xs \<noteq> 0 \<and> meanDivisor xs \<noteq> 0) \<and>
   ((chartType cfg = EWMA \<or> chartType cfg = CUSUM) \<and> \<not> usePhase2 cfg \<longrightarrow>
      sigma (chartStats cfg (processedData (chartType cfg) subgroupSize [Finite x])) = Finite 0 \<and>
      StatisticsDashboard
        (mean (chartStats cfg (processedData (chartType cfg) subgroupSize [Finite x])))
        (sigma (chartStats cfg (processedData (chartType cfg) subgroupSize [Finite x]))) sl
        = \<lparr>cp = None, cpk = None\<rparr>)"
proof -
  have pd: "chartType cfg = EWMA \<or> chartType cfg = CUSUM \<Longrightarrow>
        processedData (chartType cfg) subgroupSize [Finite x] = [] \<or>
        map value_dp (processedData (chartType cfg) subgroupSize [Finite x]) = [Finite x]"
  proof -
    have "Suc 0 \<noteq> nat k" if "1 < k" for k :: int
      using that by linarith
    then show ?thesis
      by (auto simp: processedData_def isGrouped_def groupSize_def slice_def Let_def
               groupLoop.simps split: option.splits)
  qed
  have sg: "sigma (chartStats cfg (processedData (chartType cfg) subgroupSize [Finite x])) = Finite 0"
    if "chartType cfg = EWMA \<or> chartType cfg = CUSUM" "\<not> usePhase2 cfg"
    using pd [OF that(1)] that
    by (auto simp: chartStats_def Let_def calculateStdDev_single)
  show ?thesis
    using sg
    by (simp add: calculateStdDev_single stdDevDivisor_def meanDivisor_def
        StatisticsDashboard_def)
qed

theorem single_reading_sigma_witness:
  "calculateStdDev [Finite 7] = Finite 0 \<and>
   stdDevDivisor [] \<noteq> 0 \<and> meanDivisor [] \<noteq> 0 \<and>
   sigma (chartStats (initialConfig\<lparr>chartType := EWMA\<rparr>)
            (processedData EWMA (Some 1) [Finite 7])) = Finite 0 \<and>
   StatisticsDashboard
     (mean (chartStats (initialConfig\<lparr>chartType := EWMA\<rparr>)
              (processedData EWMA (Some 1) [Finite 7])))
     (sigma (chartStats (initialConfig\<lparr>chartType := EWMA\<rparr>)
               (processedData EWMA (Some 1) [Finite 7])))
     \<lparr>usl = Some (Finite 13), lsl = Some (Finite 7)\<rparr> = \<lparr>cp = None, cpk = None\<rparr>"
  using single_reading_sigma
          [of 7 "initialConfig\<lparr>chartType := EWMA\<rparr>" "Some 1"
              "\<lparr>usl = Some (Finite 13), lsl = Some (Finite 7)\<rparr>"]
  by (simp add: usePhase2_def initialConfig_def StatisticsDashboard_def)

section \<open>The EWMA and CUSUM loops\<close>

lemma length_recurrence: "length (recurrence f s xs) = length xs"
  by (induction xs arbitrary: s) simp_all

lemma recurrence_nth:
  "j < length xs \<Longrightarrow>
   recurrence f s xs ! j = f (if j = 0 then s else recurrence f s xs ! (j - 1)) (xs ! j)"
proof (induction xs arbitrary: s j)
  case Nil
  then show ?case by simp
next
  case (Cons x xs)
  show ?case
  proof (cases j)
    case 0
    then show ?thesis by simp
  next
    case (Suc k)
    with Cons.prems have k: "k < length xs" by simp
    show ?thesis
      using Cons.IH [OF k, of "f s x"] by (cases k) (simp_all add: Suc)
  qed
qed

lemma recurrence_Finite:
  assumes "\<And>a b. f (Finite a) (Finite b) = Finite (g a b)"
  shows "recurrence f (Finite s) (map Finite xs) = map Finite (recurrence g s xs)"
  by (induction xs arbitrary: s) (simp_all add: assms)

lemma cusumForEach_recurrence:
  "cpData (cusumForEach mu K i xs st) =
     cpData st @ zip (map (\<lambda>j. i + j + 1) [0..<length xs])
                     (recurrence (\<lambda>c x. Math_max (Finite 0) (x - (mu + K) + c)) (cplus st) xs) \<and>
   cmData (cusumForEach mu K i xs st) =
     cmData st @ zip (map (\<lambda>j. i + j + 1) [0..<length xs])
                     (recurrence (\<lambda>c x. Math_max (Finite 0) ((mu - K) - x + c)) (cminus st) xs)"
proof (induction xs arbitrary: i st)
  case Nil
  show ?case by simp
next
  case (Cons x xs)
  show ?case
    by (simp add: Cons.IH Let_def map_upt_Suc del: upt_Suc)
qed

lemma chartStats_CUSUM_data:
  assumes "chartType cfg = CUSUM" "pd \<noteq> []"
  shows "\<exists>up lo. mainChart (chartStats cfg pd) = Some up \<and>
           secondChart (chartStats cfg pd) = Some lo \<and>
           data up = zip (map (\<lambda>j. 0 + j + 1) [0..<length (map value_dp pd)])
                       (recurrence (\<lambda>c x. Math_max (Finite 0)
                                      (x - (mean (chartStats cfg pd)
                                            + cusumKParam cfg * sigma (chartStats cfg pd)) + c))
                                   (Finite 0) (map value_dp pd)) \<and>
           data lo = zip (map (\<lambda>j. 0 + j + 1) [0..<length (map value_dp pd)])
                       (recurrence (\<lambda>c x. Math_max (Finite 0)
                                      ((mean (chartStats cfg pd)
                                        - cusumKParam cfg * sigma (chartStats cfg pd)) - x + c))
                                   (Finite 0) (map value_dp pd))"
  using assms by (simp add: chartStats_def Let_def cusumForEach_recurrence)

lemma chartStats_baseline:
  assumes "pd \<noteq> []" "chartType cfg \<noteq> XbarR"
  shows "mean (chartStats cfg pd)
           = (if usePhase2 cfg then the (targetMean cfg) else calculateMean (map value_dp pd))"
    and "sigma (chartStats cfg pd)
           = (if usePhase2 cfg then the (targetSigma cfg)
              else case chartType cfg of
                     IMR \<Rightarrow> calculateMean (movingRanges (map value_dp pd)) / Finite 1.128
                   | _ \<Rightarrow> calculateStdDev (map value_dp pd))"
  using assms by (cases "chartType cfg"; simp add: chartStats_def Let_def)+

lemma finite_baseline:
  assumes ne: "pd \<noteq> []" and ct: "chartType cfg = EWMA \<or> chartType cfg = CUSUM"
    and vals: "map value_dp pd = map Finite xs"
    and base: "usePhase2 cfg \<longrightarrow>
                 (\<exists>m s. targetMean cfg = Some (Finite m) \<and> targetSigma cfg = Some (Finite s))"
  shows "\<exists>mu sg. mean (chartStats cfg pd) = Finite mu \<and> sigma (chartStats cfg pd) = Finite sg"
proof (cases "usePhase2 cfg")
  case True
  with base obtain m s where "targetMean cfg = Some (Finite m)" "targetSigma cfg = Some (Finite s)"
    by (elim impE exE conjE) simp_all
  with True ct ne show ?thesis
    by (auto simp: chartStats_baseline)
next
  case False
  from ne vals have xs: "xs \<noteq> []" by auto
  from False ct ne show ?thesis
    by (auto simp: chartStats_baseline vals calculateMean_Finite [OF xs]
        calculateStdDev_Finite(1) [OF xs])
qed

lemma jsnum_plus_commute: "a + b = b + (a::jsnum)"
  by (cases a; cases b) (simp_all add: plus_jsnum_def)

lemma Math_max_zero_cases: "Math_max (Finite 0) s = NaN \<or> Finite 0 \<le> Math_max (Finite 0) s"
  by (cases s) (simp_all add: Math_max_def less_jsnum_def less_eq_jsnum_def)

lemma Math_max_zero_id: "Finite 0 \<le> s \<Longrightarrow> Math_max (Finite 0) s = s"
  by (cases s) (auto simp: Math_max_def less_jsnum_def less_eq_jsnum_def)

lemma points_nth:
  assumes ps: "ps = zip (map (\<lambda>j. k + j + 1) [0..<length xs]) (recurrence f s xs)" and i: "i < length xs"
  shows "fst (ps ! i) = k + i + 1"
    and "snd (ps ! i) = f (if i = 0 then s else snd (ps ! (i - 1))) (xs ! i)"
proof -
  have n: "snd (ps ! j) = recurrence f s xs ! j" "fst (ps ! j) = k + j + 1" if "j < length xs" for j
    using that by (simp_all add: ps length_recurrence)
  show "fst (ps ! i) = k + i + 1" by (rule n(2) [OF i])
  have "snd (ps ! i) = f (if i = 0 then s else recurrence f s xs ! (i - 1)) (xs ! i)"
    unfolding n(1) [OF i] by (rule recurrence_nth [OF i])
  also have "(if i = 0 then s else recurrence f s xs ! (i - 1))
             = (if i = 0 then s else snd (ps ! (i - 1)))"
  proof (cases "i = 0")
    case True
    then show ?thesis by simp
  next
    case False
    with i have "i - 1 < length xs" by simp
    from n(1) [OF this] False show ?thesis by simp
  qed
  finally show "snd (ps ! i) = f (if i = 0 then s else snd (ps ! (i - 1))) (xs ! i)" .
qed

lemma points_length: "length (zip (map (\<lambda>j. k + j + 1) [0..<length xs]) (recurrence f s xs)) = length xs"
  by (simp add: length_recurrence)

subsection \<open>CUSUM\<close>


lemma cusum_finite_run:
  fixes c :: real
  assumes ps: "ps = zip (map (\<lambda>j. 0 + j + 1) [0..<length (map Finite xs)])
                       (recurrence (\<lambda>a x. Math_max (Finite 0) (fJ x + a)) (Finite 0) (map Finite xs))"
    and f: "\<And>x. fJ (Finite x) = Finite (g x)"
  shows "map snd ps = map Finite (recurrence (\<lambda>a x. max 0 (g x + a)) 0 xs)"
proof -
  have "recurrence (\<lambda>a x. Math_max (Finite 0) (fJ x + a)) (Finite 0) (map Finite xs)
        = map Finite (recurrence (\<lambda>a x. max 0 (g x + a)) 0 xs)"
    by (rule recurrence_Finite) (simp add: f)
  then show ?thesis
    unfolding ps by (simp add: length_recurrence)
qed



subsection \<open>EWMA\<close>

lemma ewmaForEach_recurrence:
  "ewmaData (ewmaForEach lam L mu sg i xs st) =
     ewmaData st @ zip (map (\<lambda>j. i + j + 1) [0..<length xs])
                       (recurrence (\<lambda>v x. lam * x + (Finite 1 - lam) * v) (z st) xs) \<and>
   uclTime (ewmaForEach lam L mu sg i xs st) =
     uclTime st @ map (\<lambda>j. mu + L * sg * ewmaTerm lam (i + j)) [0..<length xs] \<and>
   lclTime (ewmaForEach lam L mu sg i xs st) =
     lclTime st @ map (\<lambda>j. mu - L * sg * ewmaTerm lam (i + j)) [0..<length xs]"
proof (induction xs arbitrary: i st)
  case Nil
  show ?case by simp
next
  case (Cons x xs)
  show ?case
    by (simp add: Cons.IH Let_def map_upt_Suc del: upt_Suc)
qed

lemma ewma_radicand_nonneg:
  fixes lam :: real
  assumes "0 < lam" "lam \<le> 1"
  shows "2 - lam \<noteq> 0" and "0 \<le> (lam / (2 - lam)) * (1 - (1 - lam) ^ n)"
proof -
  show "2 - lam \<noteq> 0" using assms by simp
  have "(1 - lam) ^ n \<le> 1"
    using assms by (intro power_le_one) simp_all
  moreover have "0 \<le> lam / (2 - lam)"
    using assms by simp
  ultimately show "0 \<le> (lam / (2 - lam)) * (1 - (1 - lam) ^ n)"
    by (intro mult_nonneg_nonneg) simp_all
qed

lemma ewma_radicand_Finite:
  assumes "2 - lam \<noteq> 0"
  shows "(Finite lam / (Finite 2 - Finite lam))
           * (Finite 1 - Math_pow (Finite 1 - Finite lam) n)
         = Finite ((lam / (2 - lam)) * (1 - (1 - lam) ^ n))"
  using assms by simp

lemma ewmaTerm_Finite:
  assumes "2 - lam \<noteq> 0" "0 \<le> (lam / (2 - lam)) * (1 - (1 - lam) ^ (2 * (i + 1)))"
  shows "ewmaTerm (Finite lam) i
         = Finite (sqrt ((lam / (2 - lam)) * (1 - (1 - lam) ^ (2 * (i + 1)))))"
  unfolding ewmaTerm_def ewma_radicand_Finite [OF assms(1)]
  by (rule Math_sqrt_Finite [OF assms(2)])

lemma chartStats_EWMA_data:
  assumes "chartType cfg = EWMA" "pd \<noteq> []"
  shows "\<exists>mc. mainChart (chartStats cfg pd) = Some mc \<and>
           cl mc = mean (chartStats cfg pd) \<and>
           data mc = zip (map (\<lambda>j. 0 + j + 1) [0..<length (map value_dp pd)])
                       (recurrence (\<lambda>v x. lambda cfg * x + (Finite 1 - lambda cfg) * v)
                                   (mean (chartStats cfg pd)) (map value_dp pd)) \<and>
           ucl mc = PerPoint (map (\<lambda>j. mean (chartStats cfg pd)
                                     + ewmaL cfg * sigma (chartStats cfg pd)
                                       * ewmaTerm (lambda cfg) (0 + j))
                                  [0..<length (map value_dp pd)]) \<and>
           lcl mc = PerPoint (map (\<lambda>j. mean (chartStats cfg pd)
                                     - ewmaL cfg * sigma (chartStats cfg pd)
                                       * ewmaTerm (lambda cfg) (0 + j))
                                  [0..<length (map value_dp pd)])"
  using assms by (simp add: chartStats_def Let_def ewmaForEach_recurrence)

lemma sqrt_quarter: "sqrt (1 / 4) = 1 / 2"
  by (simp add: real_sqrt_divide)

lemma lambda_unit_interval:
  assumes "Finite 0 < lam \<and> lam \<le> Finite 1"
  shows "\<exists>l. lam = Finite l \<and> 0 < l \<and> l \<le> 1"
  using assms by (cases lam) (auto simp: less_jsnum_def less_eq_jsnum_def)



section \<open>Phase 2 without a complete baseline\<close>

lemma chartStats_not_usePhase2:
  assumes "\<not> usePhase2 cfg" "\<not> usePhase2 cfg'"
    and "chartType cfg' = chartType cfg" "lambda cfg' = lambda cfg" "ewmaL cfg' = ewmaL cfg"
    and "cusumHParam cfg' = cusumHParam cfg" "cusumKParam cfg' = cusumKParam cfg"
  shows "chartStats cfg' pd = chartStats cfg pd"
  using assms by (cases "chartType cfg") (simp_all add: chartStats_def Let_def)

lemma chartStats_phase1_baseline:
  assumes "\<not> usePhase2 cfg" "pd \<noteq> []"
  shows "mean (chartStats cfg pd) = calculateMean (map value_dp pd)"
    and "sigma (chartStats cfg pd) =
           (case chartType cfg of
              IMR \<Rightarrow> calculateMean (movingRanges (map value_dp pd)) / Finite 1.128
            | XbarR \<Rightarrow> calculateMean (map rangeOrZero pd)
                        / Finite (d2 (constantsFor (sampleSizeOf pd)))
            | EWMA \<Rightarrow> calculateStdDev (map value_dp pd)
            | CUSUM \<Rightarrow> calculateStdDev (map value_dp pd))"
  using assms by (cases "chartType cfg"; simp add: chartStats_def Let_def)+

text \<open>
  Claim C10. When the mean or the sigma of the baseline is not supplied, phase 2 is not
  used: the chart statistics are those of phase 1 with no baseline at all, for every
  chart type, so nothing of a partly supplied baseline enters the result; with data,
  the mean is the mean of the plotted values and sigma is the estimate of the chart
  type (mean moving range over 1.128; mean range over \<open>d2\<close>; the standard deviation of
  the values for EWMA and CUSUM).
\<close>

theorem phase2_fallback:
  assumes "targetMean cfg = None \<or> targetSigma cfg = None"
  shows "\<not> usePhase2 cfg \<and>
         chartStats cfg pd
           = chartStats (cfg\<lparr>phase := Phase1, targetMean := None, targetSigma := None\<rparr>) pd \<and>
         (pd \<noteq> [] \<longrightarrow>
            mean (chartStats cfg pd) = calculateMean (map value_dp pd) \<and>
            sigma (chartStats cfg pd) =
              (case chartType cfg of
                 IMR \<Rightarrow> calculateMean (movingRanges (map value_dp pd)) / Finite 1.128
               | XbarR \<Rightarrow> calculateMean (map rangeOrZero pd)
                           / Finite (d2 (constantsFor (sampleSizeOf pd)))
               | EWMA \<Rightarrow> calculateStdDev (map value_dp pd)
               | CUSUM \<Rightarrow> calculateStdDev (map value_dp pd)))"
proof -
  have n: "\<not> usePhase2 cfg"
    using assms by (auto simp: usePhase2_def)
  have n': "\<not> usePhase2 (cfg\<lparr>phase := Phase1, targetMean := None, targetSigma := None\<rparr>)"
    by (simp add: usePhase2_def)
  have eq: "chartStats cfg pd
           = chartStats (cfg\<lparr>phase := Phase1, targetMean := None, targetSigma := None\<rparr>) pd"
    by (rule chartStats_not_usePhase2 [OF n n', symmetric]) simp_all
  show ?thesis
    using n eq chartStats_phase1_baseline [OF n] by (intro conjI impI)
qed

theorem phase2_fallback_witness:
  "targetSigma (initialConfig\<lparr>phase := Phase2, targetMean := Some (Finite 5)\<rparr>) = None \<and>
   phase (initialConfig\<lparr>phase := Phase2, targetMean := Some (Finite 5)\<rparr>) = Phase2 \<and>
   \<not> usePhase2 (initialConfig\<lparr>phase := Phase2, targetMean := Some (Finite 5)\<rparr>) \<and>
   mean (chartStats (initialConfig\<lparr>phase := Phase2, targetMean := Some (Finite 5)\<rparr>)
           (processedData IMR initialSubgroupSize [Finite 10, Finite 12])) = Finite 11 \<and>
   sigma (chartStats (initialConfig\<lparr>phase := Phase2, targetMean := Some (Finite 5)\<rparr>)
            (processedData IMR initialSubgroupSize [Finite 10, Finite 12])) = Finite (2 / 1.128)"
proof -
  let ?C = "initialConfig\<lparr>phase := Phase2, targetMean := Some (Finite 5)\<rparr>"
  let ?P = "processedData IMR initialSubgroupSize [Finite 10, Finite 12]"
  have h: "targetSigma ?C = None" and p: "phase ?C = Phase2" and ct: "chartType ?C = IMR"
    by (simp_all add: initialConfig_def)
  have P: "?P = [\<lparr>id_dp = 1, value_dp = Finite 10, range_dp = None,
                    originalValue = Some (Finite 10), sampleSize = None, subgroup = None\<rparr>,
                 \<lparr>id_dp = 2, value_dp = Finite 12, range_dp = None,
                    originalValue = Some (Finite 12), sampleSize = None, subgroup = None\<rparr>]"
    by (simp add: processedData_def isGrouped_def initialSubgroupSize_def enumerate_eq_zip upt_rec)
  have ne: "?P \<noteq> []" by (simp add: P)
  note t = phase2_fallback [OF disjI2 [OF h], of ?P]
  from t have a: "\<not> usePhase2 ?C" by (rule conjunct1)
  from t [THEN conjunct2, THEN conjunct2, THEN mp, OF ne]
  have b: "mean (chartStats ?C ?P) = Finite 11"
    and c: "sigma (chartStats ?C ?P) = Finite (2 / 1.128)"
    by (simp_all add: ct P calculateMean_def meanDivisor_def movingRanges_def upt_rec)
  from h p a b c show ?thesis by (intro conjI)
qed

section \<open>Individuals and moving range\<close>

lemma map_fst_enumerate_comp:
  "map (\<lambda>p. f (fst p)) (enumerate 0 xs) = map f [0..<length xs]"
  by (rule nth_equalityI) (simp_all add: nth_enumerate_eq)

lemma map_snd_enumerate_eta: "map (\<lambda>p. snd p) (enumerate 0 xs) = xs"
  using map_snd_enumerate [of 0 xs] by simp

lemma processedData_ungrouped:
  assumes "\<not> isGrouped ct s"
  shows "map value_dp (processedData ct s xs) = xs"
    and "length (processedData ct s xs) = length xs"
    and "map id_dp (processedData ct s xs) = map (\<lambda>i. i + 1) [0..<length xs]"
proof -
  have "map (\<lambda>p. snd p) (enumerate 0 xs) = xs"
    using map_snd_enumerate [of 0 xs] by simp
  then show "map value_dp (processedData ct s xs) = xs"
    using assms by (simp add: processedData_def split_def comp_def)
  show "length (processedData ct s xs) = length xs"
    using assms by (simp add: processedData_def)
  have "map (\<lambda>p. fst p + 1) (enumerate 0 xs) = map (\<lambda>i. i + 1) [0..<length xs]"
    by (rule map_fst_enumerate_comp)
  then show "map id_dp (processedData ct s xs) = map (\<lambda>i. i + 1) [0..<length xs]"
    using assms by (simp add: processedData_def split_def comp_def)
qed

lemma length_movingRanges: "length (movingRanges xs) = length xs - 1"
  by (simp add: movingRanges_def)

lemma movingRanges_nth:
  "i < length xs - 1 \<Longrightarrow> movingRanges xs ! i = Math_abs (xs ! (i + 1) - xs ! i)"
  by (simp add: movingRanges_def)

lemma movingRanges_Finite:
  "movingRanges (map Finite xs)
     = map Finite (map (\<lambda>i. \<bar>xs ! (i + 1) - xs ! i\<bar>) [0..<length xs - 1])"
  by (rule nth_equalityI) (simp_all add: length_movingRanges movingRanges_nth)

lemma calculateMean_nonempty:
  "vs \<noteq> [] \<Longrightarrow>
   calculateMean vs = foldl (\<lambda>a b. a + b) (Finite 0) vs / Finite (real (length vs))"
  by (simp add: calculateMean_def meanDivisor_def)

lemma chartStats_IMR:
  assumes "chartType cfg = IMR" "\<not> usePhase2 cfg" "pd \<noteq> []"
  shows "\<exists>ind mr. mainChart (chartStats cfg pd) = Some ind \<and>
           secondChart (chartStats cfg pd) = Some mr \<and>
           cl ind = mean (chartStats cfg pd) \<and>
           ucl ind = Scalar (mean (chartStats cfg pd) + Finite 3 * sigma (chartStats cfg pd)) \<and>
           lcl ind = Scalar (mean (chartStats cfg pd) - Finite 3 * sigma (chartStats cfg pd)) \<and>
           map snd (data ind) = map value_dp pd \<and>
           map fst (data ind) = map id_dp pd \<and>
           cl mr = calculateMean (movingRanges (map value_dp pd)) \<and>
           ucl mr = Scalar (Finite 3.267 * calculateMean (movingRanges (map value_dp pd))) \<and>
           lcl mr = Scalar (Finite 0) \<and>
           map snd (data mr) = movingRanges (map value_dp pd) \<and>
           map fst (data mr) = map (\<lambda>i. i + 2) [0..<length (movingRanges (map value_dp pd))]"
proof -
  have a: "map (\<lambda>p. snd p) (enumerate 0 ys) = ys" for ys :: "jsnum list"
    using map_snd_enumerate [of 0 ys] by simp
  show ?thesis
    using assms
    by (simp add: chartStats_def Let_def split_def comp_def a
          map_fst_enumerate_comp [of "\<lambda>i. Suc (Suc i)"])
qed

lemma imr_general:
  assumes ct: "chartType cfg = IMR" and np: "\<not> usePhase2 cfg" and len: "2 \<le> length vs"
  shows "mean (chartStats cfg (processedData (chartType cfg) subgroupSize vs)) = calculateMean vs"
    and "sigma (chartStats cfg (processedData (chartType cfg) subgroupSize vs))
          = calculateMean (movingRanges vs) / Finite 1.128"
    and "\<exists>ind mr.
          mainChart (chartStats cfg (processedData (chartType cfg) subgroupSize vs)) = Some ind \<and>
          secondChart (chartStats cfg (processedData (chartType cfg) subgroupSize vs)) = Some mr \<and>
          map snd (data ind) = vs \<and>
          cl ind = calculateMean vs \<and>
          ucl ind = Scalar (calculateMean vs
                            + Finite 3 * (calculateMean (movingRanges vs) / Finite 1.128)) \<and>
          lcl ind = Scalar (calculateMean vs
                            - Finite 3 * (calculateMean (movingRanges vs) / Finite 1.128)) \<and>
          map snd (data mr) = movingRanges vs \<and>
          cl mr = calculateMean (movingRanges vs) \<and>
          ucl mr = Scalar (Finite 3.267 * calculateMean (movingRanges vs)) \<and>
          lcl mr = Scalar (Finite 0)"
proof -
  let ?pd = "processedData (chartType cfg) subgroupSize vs"
  have ng: "\<not> isGrouped (chartType cfg) subgroupSize"
    using ct by (simp add: isGrouped_def)
  have vals: "map value_dp ?pd = vs" and lpd: "length ?pd = length vs"
    by (rule processedData_ungrouped [OF ng])+
  have vals': "map value_dp (processedData IMR subgroupSize vs) = vs"
    using vals by (simp add: ct)
  from lpd len have ne: "?pd \<noteq> []" by auto
  show m: "mean (chartStats cfg ?pd) = calculateMean vs"
    using chartStats_phase1_baseline(1) [OF np ne] by (simp add: vals)
  show s: "sigma (chartStats cfg ?pd) = calculateMean (movingRanges vs) / Finite 1.128"
    using chartStats_phase1_baseline(2) [OF np ne] by (simp add: vals' ct)
  from chartStats_IMR [OF ct np ne] obtain ind mr where
    c: "mainChart (chartStats cfg ?pd) = Some ind"
       "secondChart (chartStats cfg ?pd) = Some mr"
       "cl ind = mean (chartStats cfg ?pd)"
       "ucl ind = Scalar (mean (chartStats cfg ?pd) + Finite 3 * sigma (chartStats cfg ?pd))"
       "lcl ind = Scalar (mean (chartStats cfg ?pd) - Finite 3 * sigma (chartStats cfg ?pd))"
       "map snd (data ind) = map value_dp ?pd"
       "map fst (data ind) = map id_dp ?pd"
       "cl mr = calculateMean (movingRanges (map value_dp ?pd))"
       "ucl mr = Scalar (Finite 3.267 * calculateMean (movingRanges (map value_dp ?pd)))"
       "lcl mr = Scalar (Finite 0)"
       "map snd (data mr) = movingRanges (map value_dp ?pd)"
       "map fst (data mr) = map (\<lambda>i. i + 2) [0..<length (movingRanges (map value_dp ?pd))]"
    by (elim exE conjE)
  show "\<exists>ind mr.
          mainChart (chartStats cfg ?pd) = Some ind \<and>
          secondChart (chartStats cfg ?pd) = Some mr \<and>
          map snd (data ind) = vs \<and>
          cl ind = calculateMean vs \<and>
          ucl ind = Scalar (calculateMean vs
                            + Finite 3 * (calculateMean (movingRanges vs) / Finite 1.128)) \<and>
          lcl ind = Scalar (calculateMean vs
                            - Finite 3 * (calculateMean (movingRanges vs) / Finite 1.128)) \<and>
          map snd (data mr) = movingRanges vs \<and>
          cl mr = calculateMean (movingRanges vs) \<and>
          ucl mr = Scalar (Finite 3.267 * calculateMean (movingRanges vs)) \<and>
          lcl mr = Scalar (Finite 0)"
    using c unfolding vals m s
    by (intro exI [of _ ind] exI [of _ mr] conjI)
qed

lemma imr_finite:
  assumes ct: "chartType cfg = IMR" and np: "\<not> usePhase2 cfg" and len: "2 \<le> length xs"
  shows "\<exists>mrs.
        movingRanges (map Finite xs) = map Finite mrs \<and>
        length mrs = length xs - 1 \<and>
        (\<forall>i<length xs - 1. mrs ! i = \<bar>xs ! (i + 1) - xs ! i\<bar>) \<and>
        mean (chartStats cfg (processedData (chartType cfg) subgroupSize (map Finite xs)))
          = Finite (sum_list xs / real (length xs)) \<and>
        sigma (chartStats cfg (processedData (chartType cfg) subgroupSize (map Finite xs)))
          = Finite ((sum_list mrs / real (length xs - 1)) / 1.128) \<and>
        (\<exists>ind mr.
           mainChart (chartStats cfg (processedData (chartType cfg) subgroupSize (map Finite xs)))
             = Some ind \<and>
           secondChart (chartStats cfg (processedData (chartType cfg) subgroupSize (map Finite xs)))
             = Some mr \<and>
           map snd (data ind) = map Finite xs \<and>
           cl ind = Finite (sum_list xs / real (length xs)) \<and>
           ucl ind = Scalar (Finite (sum_list xs / real (length xs)
                             + 3 * ((sum_list mrs / real (length xs - 1)) / 1.128))) \<and>
           lcl ind = Scalar (Finite (sum_list xs / real (length xs)
                             - 3 * ((sum_list mrs / real (length xs - 1)) / 1.128))) \<and>
           map snd (data mr) = map Finite mrs \<and>
           cl mr = Finite (sum_list mrs / real (length xs - 1)) \<and>
           ucl mr = Scalar (Finite (3.267 * (sum_list mrs / real (length xs - 1)))) \<and>
           lcl mr = Scalar (Finite 0))"
proof -
  define mrs where "mrs = map (\<lambda>i. \<bar>xs ! (i + 1) - xs ! i\<bar>) [0..<length xs - 1]"
  let ?S = "chartStats cfg (processedData (chartType cfg) subgroupSize (map Finite xs))"
  have M: "movingRanges (map Finite xs) = map Finite mrs"
    unfolding mrs_def by (rule movingRanges_Finite)
  have lm: "length mrs = length xs - 1" by (simp add: mrs_def)
  have nth: "\<forall>i<length xs - 1. mrs ! i = \<bar>xs ! (i + 1) - xs ! i\<bar>"
    by (simp add: mrs_def)
  from len have xs: "xs \<noteq> []" by auto
  from len lm have ms: "mrs \<noteq> []" by auto
  have len': "2 \<le> length (map Finite xs)" using len by simp
  have cm: "calculateMean (map Finite xs) = Finite (sum_list xs / real (length xs))"
    by (rule calculateMean_Finite [OF xs])
  have cr: "calculateMean (map Finite mrs) = Finite (sum_list mrs / real (length xs - 1))"
    using calculateMean_Finite [OF ms] by (simp add: lm)
  note g = imr_general [OF ct np len', of subgroupSize, unfolded M cm cr]
  have m: "mean ?S = Finite (sum_list xs / real (length xs))"
    by (rule g(1))
  have s: "sigma ?S = Finite ((sum_list mrs / real (length xs - 1)) / 1.128)"
    using g(2) by simp
  from g(3) obtain ind mr where
    c: "mainChart ?S = Some ind" "secondChart ?S = Some mr"
       "map snd (data ind) = map Finite xs"
       "cl ind = Finite (sum_list xs / real (length xs))"
       "ucl ind = Scalar (Finite (sum_list xs / real (length xs))
                            + Finite 3 * (Finite (sum_list mrs / real (length xs - 1)) / Finite 1.128))"
       "lcl ind = Scalar (Finite (sum_list xs / real (length xs))
                            - Finite 3 * (Finite (sum_list mrs / real (length xs - 1)) / Finite 1.128))"
       "map snd (data mr) = map Finite mrs"
       "cl mr = Finite (sum_list mrs / real (length xs - 1))"
       "ucl mr = Scalar (Finite 3.267 * Finite (sum_list mrs / real (length xs - 1)))"
       "lcl mr = Scalar (Finite 0)"
    by (elim exE conjE)
  have u: "ucl ind = Scalar (Finite (sum_list xs / real (length xs)
                             + 3 * ((sum_list mrs / real (length xs - 1)) / 1.128)))"
    using c(5) by simp
  have l: "lcl ind = Scalar (Finite (sum_list xs / real (length xs)
                             - 3 * ((sum_list mrs / real (length xs - 1)) / 1.128)))"
    using c(6) by simp
  have um: "ucl mr = Scalar (Finite (3.267 * (sum_list mrs / real (length xs - 1))))"
    using c(9) by simp
  show ?thesis
    by (rule exI [of _ mrs], intro conjI M lm nth m s, rule exI [of _ ind], rule exI [of _ mr])
       (intro conjI c(1-4) u l c(7,8) um c(10))
qed



section \<open>Subgroups\<close>

lemma groupLoop_eq:
  assumes n: "0 < n"
  shows "groupLoop n xs i gs =
           gs @ map (\<lambda>k. \<lparr>id_dp = length gs + k + 1,
                           value_dp = calculateMean (take n (drop (i + k * n) xs)),
                           range_dp = Some (chunkRange (take n (drop (i + k * n) xs))),
                           originalValue = None,
                           sampleSize = Some n,
                           subgroup = Some (take n (drop (i + k * n) xs))\<rparr>)
                    [0..<(length xs - i) div n]"
  using n
proof (induction n xs i gs rule: groupLoop.induct)
  case (1 n xs i gs)
  let ?F = "\<lambda>gs i k. \<lparr>id_dp = length gs + k + 1,
                           value_dp = calculateMean (take n (drop (i + k * n) xs)),
                           range_dp = Some (chunkRange (take n (drop (i + k * n) xs))),
                           originalValue = None,
                           sampleSize = Some n,
                           subgroup = Some (take n (drop (i + k * n) xs))\<rparr>"
  note n = \<open>0 < n\<close>
  show ?case
  proof (cases "i < length xs")
    case False
    then have "(length xs - i) div n = 0" by simp
    with False show ?thesis by (subst groupLoop.simps) simp
  next
    case True
    have chunk: "slice xs i (i + n) = take n (drop i xs)"
      by (simp add: slice_def)
    note ih = "1.IH" [OF conjI [OF True n] refl n, unfolded chunk]
    let ?g = "\<lparr>id_dp = length gs + 1,
               value_dp = calculateMean (take n (drop i xs)),
               range_dp = Some (chunkRange (take n (drop i xs))),
               originalValue = None,
               sampleSize = Some n,
               subgroup = Some (take n (drop i xs))\<rparr>"
    have unfold: "groupLoop n xs i gs =
        groupLoop n xs (i + n) (if length (take n (drop i xs)) = n then gs @ [?g] else gs)"
      using True n by (subst groupLoop.simps) (simp only: chunk Let_def simp_thms if_True)
    show ?thesis
    proof (cases "length (take n (drop i xs)) = n")
      case full: True
      then have le: "n \<le> length xs - i" by simp
      have d: "(length xs - i) div n = Suc ((length xs - (i + n)) div n)"
        using le_div_geq [OF n le] by simp
      have IH: "groupLoop n xs (i + n) (gs @ [?g])
                  = (gs @ [?g]) @ map (?F (gs @ [?g]) (i + n)) [0..<(length xs - (i + n)) div n]"
        using ih by (simp only: full simp_thms if_True)
      have step: "groupLoop n xs i gs = groupLoop n xs (i + n) (gs @ [?g])"
        unfolding unfold by (simp only: full simp_thms if_True)
      have "groupLoop n xs i gs
              = (gs @ [?g]) @ map (?F (gs @ [?g]) (i + n)) [0..<(length xs - (i + n)) div n]"
        unfolding step by (rule IH)
      also have "\<dots> = gs @ map (?F gs i) [0..<Suc ((length xs - (i + n)) div n)]"
        by (simp add: map_upt_Suc add.assoc del: upt_Suc)
      finally show ?thesis
        unfolding d .
    next
      case part: False
      then have lt: "length xs - i < n" by simp
      then have d: "(length xs - i) div n = 0" by simp
      from lt have d': "(length xs - (i + n)) div n = 0" by simp
      have IH: "groupLoop n xs (i + n) gs
                  = gs @ map (?F gs (i + n)) [0..<(length xs - (i + n)) div n]"
        using ih by (simp only: part simp_thms if_False)
      have step: "groupLoop n xs i gs = groupLoop n xs (i + n) gs"
        unfolding unfold by (simp only: part simp_thms if_False)
      show ?thesis
        unfolding step IH d d' by simp
    qed
  qed
qed

lemma concat_windows:
  "m * n \<le> length xs \<Longrightarrow>
   concat (map (\<lambda>k. take n (drop (k * n) xs)) [0..<m]) = take (m * n) xs"
proof (induction m)
  case 0
  show ?case by simp
next
  case (Suc m)
  then have "m * n \<le> length xs" by simp
  with Suc.IH have "concat (map (\<lambda>k. take n (drop (k * n) xs)) [0..<Suc m])
                      = take (m * n) xs @ take n (drop (m * n) xs)"
    by simp
  also have "\<dots> = take (m * n + n) xs"
    by (rule take_add [symmetric])
  finally show ?case by (simp add: add.commute)
qed

lemma processedData_grouped:
  assumes n: "2 \<le> n" and g: "isGrouped ct (Some (int n))"
  shows "processedData ct (Some (int n)) xs =
           map (\<lambda>k. \<lparr>id_dp = k + 1,
                       value_dp = calculateMean (take n (drop (k * n) xs)),
                       range_dp = Some (chunkRange (take n (drop (k * n) xs))),
                       originalValue = None,
                       sampleSize = Some n,
                       subgroup = Some (take n (drop (k * n) xs))\<rparr>)
               [0..<length xs div n]"
proof -
  from n have sz: "groupSize ct (Some (int n)) = Some n"
    by (simp add: groupSize_def max_def)
  from n have pos: "0 < n" by simp
  show ?thesis
    using g by (simp add: processedData_def sz groupLoop_eq [OF pos])
qed

lemma foldl_Math_max_Finite:
  "foldl Math_max (Finite a) (map Finite xs) = Finite (fold max xs a)"
  by (induction xs arbitrary: a) (simp_all add: max.commute)

lemma foldl_Math_min_Finite:
  "foldl Math_min (Finite a) (map Finite xs) = Finite (fold min xs a)"
  by (induction xs arbitrary: a) (simp_all add: min.commute)

lemma Math_max_of_Finite:
  assumes "xs \<noteq> []"
  shows "Math_max_of (map Finite xs) = Finite (Max (set xs))"
proof -
  from assms obtain a ys where xs: "xs = a # ys" by (cases xs) auto
  have "Math_max NegInfinity (Finite a) = Finite a"
    by (simp add: Math_max_def less_jsnum_def)
  moreover have "fold max ys a = Max (set (a # ys))"
    by (rule Max.set_eq_fold [symmetric])
  ultimately show ?thesis
    unfolding xs by (simp add: Math_max_of_def foldl_Math_max_Finite)
qed

lemma Math_min_of_Finite:
  assumes "xs \<noteq> []"
  shows "Math_min_of (map Finite xs) = Finite (Min (set xs))"
proof -
  from assms obtain a ys where xs: "xs = a # ys" by (cases xs) auto
  have "Math_min Infinity (Finite a) = Finite a"
    by (simp add: Math_min_def less_jsnum_def)
  moreover have "fold min ys a = Min (set (a # ys))"
    by (rule Min.set_eq_fold [symmetric])
  ultimately show ?thesis
    unfolding xs by (simp add: Math_min_of_def foldl_Math_min_Finite)
qed

lemma chunkRange_Finite:
  "xs \<noteq> [] \<Longrightarrow> chunkRange (map Finite xs) = Finite (Max (set xs) - Min (set xs))"
  by (simp add: chunkRange_def Math_max_of_Finite Math_min_of_Finite)



section \<open>Constants of the X-bar and R chart\<close>

lemma STAT_CONSTANTS_dom: "STAT_CONSTANTS n = None \<longleftrightarrow> n < 2 \<or> 10 < n"
  by (auto simp: STAT_CONSTANTS_def)

lemma constantsFor_fallback:
  "n < 2 \<or> 10 < n \<Longrightarrow> constantsFor n = \<lparr>A2 = 1.880, D3 = 0, D4 = 3.267, d2 = 1.128\<rparr>"
  by (auto simp: constantsFor_def STAT_CONSTANTS_def)

lemma constantsFor_2: "constantsFor 2 = \<lparr>A2 = 1.880, D3 = 0, D4 = 3.267, d2 = 1.128\<rparr>"
  by (simp add: constantsFor_def STAT_CONSTANTS_def)

lemma processedData_XbarR_clamp:
  "processedData XbarR (Some s) xs = processedData XbarR (Some (int (nat (max 2 s)))) xs"
  by (simp add: processedData_def isGrouped_def groupSize_def max_def)

lemma sampleSizeOf_XbarR:
  assumes "processedData XbarR (Some s) xs \<noteq> []"
  shows "sampleSizeOf (processedData XbarR (Some s) xs) = nat (max 2 s)"
proof -
  let ?n = "nat (max 2 s)"
  have n: "2 \<le> ?n" by simp
  have g: "isGrouped XbarR (Some (int ?n))" by (simp add: isGrouped_def)
  note pd = processedData_grouped [OF n g, of xs, folded processedData_XbarR_clamp]
  from assms have "0 < length xs div ?n"
    unfolding pd by simp
  then have "[0..<length xs div ?n] = 0 # [1..<length xs div ?n]"
    by (simp add: upt_conv_Cons)
  then show ?thesis
    unfolding pd using n by (simp add: sampleSizeOf_def)
qed

lemma chartStats_XbarR:
  assumes "chartType cfg = XbarR" "pd \<noteq> []"
  shows "sigma (chartStats cfg pd)
           = calculateMean (map rangeOrZero pd)
             / Finite (d2 (constantsFor (sampleSizeOf pd)))"
    and "\<exists>xbar rng.
           mainChart (chartStats cfg pd) = Some xbar \<and>
           secondChart (chartStats cfg pd) = Some rng \<and>
           cl xbar = mean (chartStats cfg pd) \<and>
           ucl xbar = Scalar (mean (chartStats cfg pd)
                        + Finite (A2 (constantsFor (sampleSizeOf pd)))
                          * calculateMean (map rangeOrZero pd)) \<and>
           lcl xbar = Scalar (mean (chartStats cfg pd)
                        - Finite (A2 (constantsFor (sampleSizeOf pd)))
                          * calculateMean (map rangeOrZero pd)) \<and>
           cl rng = calculateMean (map rangeOrZero pd) \<and>
           ucl rng = Scalar (Finite (D4 (constantsFor (sampleSizeOf pd)))
                        * calculateMean (map rangeOrZero pd)) \<and>
           lcl rng = Scalar (Finite (D3 (constantsFor (sampleSizeOf pd)))
                        * calculateMean (map rangeOrZero pd))"
  using assms by (simp_all add: chartStats_def Let_def)

text \<open>
  Claim C1 fails as stated: for the subgroup size 11, which has no row in the table,
  the X-bar and R statistics are computed with the row of \<open>n = 2\<close> (not with the row of
  the nearest size 10), and the result says nothing about it.
\<close>

theorem xbar_out_of_range_counterexample:
  "STAT_CONSTANTS 11 = None \<and>
   sampleSizeOf (processedData XbarR (Some 11) (map Finite [1, 2, 3, 4, 5, 6, 7, 8, 9, 10, 12])) = 11 \<and>
   constantsFor 11 = \<lparr>A2 = 1.880, D3 = 0, D4 = 3.267, d2 = 1.128\<rparr> \<and>
   STAT_CONSTANTS 2 = Some (constantsFor 11) \<and>
   STAT_CONSTANTS 10 \<noteq> Some (constantsFor 11) \<and>
   sigma (chartStats (initialConfig\<lparr>chartType := XbarR\<rparr>)
            (processedData XbarR (Some 11) (map Finite [1, 2, 3, 4, 5, 6, 7, 8, 9, 10, 12]))) = Finite (11 / 1.128) \<and>
   mainChart (chartStats (initialConfig\<lparr>chartType := XbarR\<rparr>)
            (processedData XbarR (Some 11) (map Finite [1, 2, 3, 4, 5, 6, 7, 8, 9, 10, 12])))
     = Some \<lparr>data = [(1, Finite (67 / 11))],
             ucl = Scalar (Finite (67 / 11 + 1.880 * 11)),
             lcl = Scalar (Finite (67 / 11 - 1.880 * 11)),
             cl = Finite (67 / 11), secondarySeries = None, secondaryTarget = None\<rparr>"
proof -
  have pd: "processedData XbarR (Some 11) (map Finite [1, 2, 3, 4, 5, 6, 7, 8, 9, 10, 12])
            = [\<lparr>id_dp = 1, value_dp = Finite (67 / 11), range_dp = Some (Finite 11),
                originalValue = None,
                sampleSize = Some 11,
                subgroup = Some (map Finite [1, 2, 3, 4, 5, 6, 7, 8, 9, 10, 12])\<rparr>]"
    by (simp add: processedData_def isGrouped_def groupSize_def groupLoop.simps slice_def
        calculateMean_def meanDivisor_def chunkRange_def Math_max_of_def Math_min_of_def Let_def)
  show ?thesis
    unfolding pd
    by (simp add: STAT_CONSTANTS_def constantsFor_def sampleSizeOf_def chartStats_def
        initialConfig_def usePhase2_def Let_def calculateMean_def meanDivisor_def
        rangeOrZero_def)
qed

text \<open>
  Claim C1, amended. For the X-bar and R chart the size the constants are chosen for is
  \<open>max(2, subgroupSize)\<close>, so a size below 2 is clamped to 2; for a size above 10, which
  has no row in the table, the row of \<open>n = 2\<close> (A2 = 1.880, D3 = 0, D4 = 3.267,
  d2 = 1.128) is used for sigma and for the limits of both charts.
\<close>

theorem xbar_constants_fallback:
  assumes "chartType cfg = XbarR" and "processedData XbarR (Some s) xs \<noteq> []"
  shows "sampleSizeOf (processedData XbarR (Some s) xs) = nat (max 2 s) \<and>
         (s < 2 \<longrightarrow> sampleSizeOf (processedData XbarR (Some s) xs) = 2) \<and>
         (10 < s \<longrightarrow>
            STAT_CONSTANTS (sampleSizeOf (processedData XbarR (Some s) xs)) = None \<and>
            constantsFor (sampleSizeOf (processedData XbarR (Some s) xs))
              = \<lparr>A2 = 1.880, D3 = 0, D4 = 3.267, d2 = 1.128\<rparr> \<and>
            STAT_CONSTANTS 2
              = Some (constantsFor (sampleSizeOf (processedData XbarR (Some s) xs))) \<and>
            sigma (chartStats cfg (processedData XbarR (Some s) xs))
              = calculateMean (map rangeOrZero
                                  (processedData XbarR (Some s) xs)) / Finite 1.128 \<and>
            (\<exists>xbar rng.
               mainChart (chartStats cfg (processedData XbarR (Some s) xs)) = Some xbar \<and>
               secondChart (chartStats cfg (processedData XbarR (Some s) xs)) = Some rng \<and>
               ucl xbar = Scalar (mean (chartStats cfg (processedData XbarR (Some s) xs))
                            + Finite 1.880 * calculateMean
                                (map rangeOrZero
                                     (processedData XbarR (Some s) xs))) \<and>
               lcl xbar = Scalar (mean (chartStats cfg (processedData XbarR (Some s) xs))
                            - Finite 1.880 * calculateMean
                                (map rangeOrZero
                                     (processedData XbarR (Some s) xs))) \<and>
               ucl rng = Scalar (Finite 3.267 * calculateMean
                                (map rangeOrZero
                                     (processedData XbarR (Some s) xs))) \<and>
               lcl rng = Scalar (Finite 0 * calculateMean
                                (map rangeOrZero
                                     (processedData XbarR (Some s) xs)))))"
proof -
  let ?pd = "processedData XbarR (Some s) xs"
  note n = sampleSizeOf_XbarR [OF assms(2)]
  have small: "sampleSizeOf ?pd = 2" if "s < 2"
    using that by (simp add: n max_def)
  have big: "STAT_CONSTANTS (sampleSizeOf ?pd) = None \<and>
            constantsFor (sampleSizeOf ?pd) = \<lparr>A2 = 1.880, D3 = 0, D4 = 3.267, d2 = 1.128\<rparr> \<and>
            STAT_CONSTANTS 2 = Some (constantsFor (sampleSizeOf ?pd)) \<and>
            sigma (chartStats cfg ?pd)
              = calculateMean (map rangeOrZero ?pd) / Finite 1.128 \<and>
            (\<exists>xbar rng.
               mainChart (chartStats cfg ?pd) = Some xbar \<and>
               secondChart (chartStats cfg ?pd) = Some rng \<and>
               ucl xbar = Scalar (mean (chartStats cfg ?pd)
                            + Finite 1.880 * calculateMean
                                (map rangeOrZero ?pd)) \<and>
               lcl xbar = Scalar (mean (chartStats cfg ?pd)
                            - Finite 1.880 * calculateMean
                                (map rangeOrZero ?pd)) \<and>
               ucl rng = Scalar (Finite 3.267 * calculateMean
                                (map rangeOrZero ?pd)) \<and>
               lcl rng = Scalar (Finite 0 * calculateMean
                                (map rangeOrZero ?pd)))"
    if "10 < s"
  proof -
    from that have "10 < nat (max 2 s)" by linarith
    then have out: "sampleSizeOf ?pd < 2 \<or> 10 < sampleSizeOf ?pd"
      by (simp only: n simp_thms)
    note c = constantsFor_fallback [OF out]
    have none: "STAT_CONSTANTS (sampleSizeOf ?pd) = None"
      using out by (simp add: STAT_CONSTANTS_dom)
    have two: "STAT_CONSTANTS 2 = Some (constantsFor (sampleSizeOf ?pd))"
      unfolding c by (simp add: STAT_CONSTANTS_def)
    have sg: "sigma (chartStats cfg ?pd)
              = calculateMean (map rangeOrZero ?pd) / Finite 1.128"
      unfolding chartStats_XbarR(1) [OF assms] c by simp
    from chartStats_XbarR(2) [OF assms, unfolded c] obtain xbar rng where
      "mainChart (chartStats cfg ?pd) = Some xbar"
      "secondChart (chartStats cfg ?pd) = Some rng"
      "ucl xbar = Scalar (mean (chartStats cfg ?pd)
                            + Finite 1.880 * calculateMean
                                (map rangeOrZero ?pd))"
      "lcl xbar = Scalar (mean (chartStats cfg ?pd)
                            - Finite 1.880 * calculateMean
                                (map rangeOrZero ?pd))"
      "ucl rng = Scalar (Finite 3.267 * calculateMean
                                (map rangeOrZero ?pd))"
      "lcl rng = Scalar (Finite 0 * calculateMean
                                (map rangeOrZero ?pd))"
      by (elim exE conjE) simp
    then have "\<exists>xbar rng.
               mainChart (chartStats cfg ?pd) = Some xbar \<and>
               secondChart (chartStats cfg ?pd) = Some rng \<and>
               ucl xbar = Scalar (mean (chartStats cfg ?pd)
                            + Finite 1.880 * calculateMean
                                (map rangeOrZero ?pd)) \<and>
               lcl xbar = Scalar (mean (chartStats cfg ?pd)
                            - Finite 1.880 * calculateMean
                                (map rangeOrZero ?pd)) \<and>
               ucl rng = Scalar (Finite 3.267 * calculateMean
                                (map rangeOrZero ?pd)) \<and>
               lcl rng = Scalar (Finite 0 * calculateMean
                                (map rangeOrZero ?pd))"
      by (intro exI [of _ xbar] exI [of _ rng] conjI)
    with none c two sg show ?thesis by (intro conjI)
  qed
  show ?thesis
  proof (rule conjI [OF n], rule conjI)
    show "s < 2 \<longrightarrow> sampleSizeOf ?pd = 2"
      by (rule impI) (rule small)
  qed (rule impI, rule big)
qed

theorem xbar_constants_fallback_witness:
  "chartType (initialConfig\<lparr>chartType := XbarR\<rparr>) = XbarR \<and>
   processedData XbarR (Some 11) (map Finite [1, 2, 3, 4, 5, 6, 7, 8, 9, 10, 12]) \<noteq> [] \<and>
   sampleSizeOf (processedData XbarR (Some 11) (map Finite [1, 2, 3, 4, 5, 6, 7, 8, 9, 10, 12])) = 11 \<and>
   constantsFor (sampleSizeOf (processedData XbarR (Some 11) (map Finite [1, 2, 3, 4, 5, 6, 7, 8, 9, 10, 12])))
     = \<lparr>A2 = 1.880, D3 = 0, D4 = 3.267, d2 = 1.128\<rparr> \<and>
   sampleSizeOf (processedData XbarR (Some (- 3)) (map Finite [1, 2, 3])) = 2"
proof -
  have h: "chartType (initialConfig\<lparr>chartType := XbarR\<rparr>) = XbarR" by simp
  have ne: "processedData XbarR (Some 11) (map Finite [1, 2, 3, 4, 5, 6, 7, 8, 9, 10, 12]) \<noteq> []"
    by (simp add: processedData_def isGrouped_def groupSize_def groupLoop.simps slice_def Let_def)
  note t = xbar_constants_fallback [OF h ne]
  have a: "sampleSizeOf (processedData XbarR (Some 11) (map Finite [1, 2, 3, 4, 5, 6, 7, 8, 9, 10, 12])) = 11"
    using t [THEN conjunct1] by simp
  have "(10::int) < 11" by simp
  from t [THEN conjunct2, THEN conjunct2, THEN mp, OF this, THEN conjunct2, THEN conjunct1]
  have b: "constantsFor (sampleSizeOf (processedData XbarR (Some 11) (map Finite [1, 2, 3, 4, 5, 6, 7, 8, 9, 10, 12])))
     = \<lparr>A2 = 1.880, D3 = 0, D4 = 3.267, d2 = 1.128\<rparr>" .
  have ne': "processedData XbarR (Some (- 3)) (map Finite [1, 2, 3]) \<noteq> []"
    by (simp add: processedData_def isGrouped_def groupSize_def groupLoop.simps slice_def Let_def)
  have "(- 3 :: int) < 2" by simp
  from xbar_constants_fallback [OF h ne', THEN conjunct2, THEN conjunct1, THEN mp, OF this]
  have c: "sampleSizeOf (processedData XbarR (Some (- 3)) (map Finite [1, 2, 3])) = 2" .
  from h ne a b c show ?thesis by (intro conjI)
qed

text \<open>
  Claim C2 fails as stated: with the subgroup size 1 the readings \<open>[1, 2, 3, 4, 5]\<close> are
  grouped by 2, not by 5, and sigma is computed with the constants of \<open>n = 2\<close>.
\<close>

theorem xbar_default_size_counterexample:
  "map subgroup (processedData XbarR (Some 1) (map Finite [1, 2, 3, 4, 5])) = [Some [Finite 1, Finite 2], Some [Finite 3, Finite 4]] \<and>
   map subgroup (processedData XbarR (Some 5) (map Finite [1, 2, 3, 4, 5])) = [Some (map Finite [1, 2, 3, 4, 5])] \<and>
   sampleSizeOf (processedData XbarR (Some 1) (map Finite [1, 2, 3, 4, 5])) = 2 \<and>
   sigma (chartStats (initialConfig\<lparr>chartType := XbarR\<rparr>)
            (processedData XbarR (Some 1) (map Finite [1, 2, 3, 4, 5]))) = Finite (1 / 1.128) \<and>
   sigma (chartStats (initialConfig\<lparr>chartType := XbarR\<rparr>)
            (processedData XbarR (Some 5) (map Finite [1, 2, 3, 4, 5]))) = Finite (4 / 2.326)"
  by (simp add: processedData_def isGrouped_def groupSize_def groupLoop.simps slice_def
      calculateMean_def meanDivisor_def chunkRange_def Math_max_of_def Math_min_of_def
      rangeOrZero_def STAT_CONSTANTS_def constantsFor_def sampleSizeOf_def chartStats_def
      initialConfig_def usePhase2_def Let_def)

text \<open>
  Claim C2, amended. For the X-bar and R chart a subgroup size below 2 other than 0 is
  replaced by 2, in the chart data and in the datasheet preview alike: the groups are
  those of size 2, sigma is the mean range over the \<open>d2\<close> of \<open>n = 2\<close>, and the limits
  of both charts are computed with the constants of \<open>n = 2\<close>.
\<close>

theorem xbar_small_size_clamped:
  assumes "s < 2" "s \<noteq> 0"
  shows "groupSize XbarR (Some s) = Some 2 \<and>
         previewSize XbarR (Some s) = 2 \<and>
         processedData XbarR (Some s) xs = processedData XbarR (Some 2) xs \<and>
         (chartType cfg = XbarR \<and> processedData XbarR (Some s) xs \<noteq> [] \<longrightarrow>
            sampleSizeOf (processedData XbarR (Some s) xs) = 2 \<and>
            constantsFor (sampleSizeOf (processedData XbarR (Some s) xs))
              = \<lparr>A2 = 1.880, D3 = 0, D4 = 3.267, d2 = 1.128\<rparr> \<and>
            STAT_CONSTANTS 2
              = Some (constantsFor (sampleSizeOf (processedData XbarR (Some s) xs))) \<and>
            sigma (chartStats cfg (processedData XbarR (Some s) xs))
              = calculateMean (map rangeOrZero
                                  (processedData XbarR (Some s) xs)) / Finite 1.128 \<and>
            (\<exists>xbar rng.
               mainChart (chartStats cfg (processedData XbarR (Some s) xs)) = Some xbar \<and>
               secondChart (chartStats cfg (processedData XbarR (Some s) xs)) = Some rng \<and>
               ucl xbar = Scalar (mean (chartStats cfg (processedData XbarR (Some s) xs))
                            + Finite 1.880 * calculateMean
                                (map rangeOrZero
                                     (processedData XbarR (Some s) xs))) \<and>
               lcl xbar = Scalar (mean (chartStats cfg (processedData XbarR (Some s) xs))
                            - Finite 1.880 * calculateMean
                                (map rangeOrZero
                                     (processedData XbarR (Some s) xs))) \<and>
               ucl rng = Scalar (Finite 3.267 * calculateMean
                                (map rangeOrZero
                                     (processedData XbarR (Some s) xs))) \<and>
               lcl rng = Scalar (Finite 0 * calculateMean
                                (map rangeOrZero
                                     (processedData XbarR (Some s) xs)))))"
proof -
  let ?pd = "processedData XbarR (Some s) xs"
  from assms(1) have m: "max 2 s = 2" by simp
  have gs: "groupSize XbarR (Some s) = Some 2"
    by (simp add: groupSize_def m)
  have pv: "previewSize XbarR (Some s) = 2"
    using assms by (simp add: previewSize_def)
  have eq: "?pd = processedData XbarR (Some 2) xs"
    using processedData_XbarR_clamp [of s xs] by (simp add: m)
  have rest: "sampleSizeOf ?pd = 2 \<and>
            constantsFor (sampleSizeOf ?pd) = \<lparr>A2 = 1.880, D3 = 0, D4 = 3.267, d2 = 1.128\<rparr> \<and>
            STAT_CONSTANTS 2 = Some (constantsFor (sampleSizeOf ?pd)) \<and>
            sigma (chartStats cfg ?pd)
              = calculateMean (map rangeOrZero ?pd) / Finite 1.128 \<and>
            (\<exists>xbar rng.
               mainChart (chartStats cfg ?pd) = Some xbar \<and>
               secondChart (chartStats cfg ?pd) = Some rng \<and>
               ucl xbar = Scalar (mean (chartStats cfg ?pd)
                            + Finite 1.880 * calculateMean
                                (map rangeOrZero ?pd)) \<and>
               lcl xbar = Scalar (mean (chartStats cfg ?pd)
                            - Finite 1.880 * calculateMean
                                (map rangeOrZero ?pd)) \<and>
               ucl rng = Scalar (Finite 3.267 * calculateMean
                                (map rangeOrZero ?pd)) \<and>
               lcl rng = Scalar (Finite 0 * calculateMean
                                (map rangeOrZero ?pd)))"
    if "chartType cfg = XbarR \<and> ?pd \<noteq> []"
  proof -
    from that have ct: "chartType cfg = XbarR" and ne: "?pd \<noteq> []" by simp_all
    have n: "sampleSizeOf ?pd = 2"
      using sampleSizeOf_XbarR [OF ne] by (simp add: m)
    have c: "constantsFor (sampleSizeOf ?pd) = \<lparr>A2 = 1.880, D3 = 0, D4 = 3.267, d2 = 1.128\<rparr>"
      unfolding n by (rule constantsFor_2)
    have two: "STAT_CONSTANTS 2 = Some (constantsFor (sampleSizeOf ?pd))"
      unfolding c by (simp add: STAT_CONSTANTS_def)
    have sg: "sigma (chartStats cfg ?pd)
              = calculateMean (map rangeOrZero ?pd) / Finite 1.128"
      unfolding chartStats_XbarR(1) [OF ct ne] c by simp
    from chartStats_XbarR(2) [OF ct ne, unfolded c] obtain xbar rng where
      "mainChart (chartStats cfg ?pd) = Some xbar"
      "secondChart (chartStats cfg ?pd) = Some rng"
      "ucl xbar = Scalar (mean (chartStats cfg ?pd)
                            + Finite 1.880 * calculateMean
                                (map rangeOrZero ?pd))"
      "lcl xbar = Scalar (mean (chartStats cfg ?pd)
                            - Finite 1.880 * calculateMean
                                (map rangeOrZero ?pd))"
      "ucl rng = Scalar (Finite 3.267 * calculateMean
                                (map rangeOrZero ?pd))"
      "lcl rng = Scalar (Finite 0 * calculateMean
                                (map rangeOrZero ?pd))"
      by (elim exE conjE) simp
    then have lim: "\<exists>xbar rng.
               mainChart (chartStats cfg ?pd) = Some xbar \<and>
               secondChart (chartStats cfg ?pd) = Some rng \<and>
               ucl xbar = Scalar (mean (chartStats cfg ?pd)
                            + Finite 1.880 * calculateMean
                                (map rangeOrZero ?pd)) \<and>
               lcl xbar = Scalar (mean (chartStats cfg ?pd)
                            - Finite 1.880 * calculateMean
                                (map rangeOrZero ?pd)) \<and>
               ucl rng = Scalar (Finite 3.267 * calculateMean
                                (map rangeOrZero ?pd)) \<and>
               lcl rng = Scalar (Finite 0 * calculateMean
                                (map rangeOrZero ?pd))"
      by (intro exI [of _ xbar] exI [of _ rng] conjI)
    from n c two sg lim show ?thesis by (intro conjI)
  qed
  show ?thesis
  proof (rule conjI [OF gs], rule conjI [OF pv], rule conjI [OF eq])
  qed (rule impI, rule rest)
qed

theorem xbar_small_size_clamped_witness:
  "(1::int) < 2 \<and> (1::int) \<noteq> 0 \<and>
   chartType (initialConfig\<lparr>chartType := XbarR\<rparr>) = XbarR \<and>
   processedData XbarR initialSubgroupSize (map Finite [1, 2, 3, 4, 5]) \<noteq> [] \<and>
   groupSize XbarR initialSubgroupSize = Some 2 \<and>
   sampleSizeOf (processedData XbarR initialSubgroupSize (map Finite [1, 2, 3, 4, 5])) = 2"
proof -
  have h1: "(1::int) < 2" and h2: "(1::int) \<noteq> 0" by simp_all
  have h: "chartType (initialConfig\<lparr>chartType := XbarR\<rparr>) = XbarR" by simp
  have ne: "processedData XbarR (Some 1) (map Finite [1, 2, 3, 4, 5]) \<noteq> []"
    by (simp add: processedData_def isGrouped_def groupSize_def groupLoop.simps slice_def Let_def)
  note t = xbar_small_size_clamped [OF h1 h2, of "map Finite [1, 2, 3, 4, 5]" "initialConfig\<lparr>chartType := XbarR\<rparr>"]
  from t have a: "groupSize XbarR (Some 1) = Some 2" by (rule conjunct1)
  from t [THEN conjunct2, THEN conjunct2, THEN conjunct2, THEN mp, OF conjI [OF h ne]]
  have b: "sampleSizeOf (processedData XbarR (Some 1) (map Finite [1, 2, 3, 4, 5])) = 2"
    by (rule conjunct1)
  from h1 h2 h ne a b show ?thesis
    unfolding initialSubgroupSize_def by (intro conjI)
qed

section \<open>Parsing a line\<close>

subsection \<open>Which tokens \<open>parseFloat\<close> accepts\<close>

lemma takeWhile_nonempty: "takeWhile P xs \<noteq> [] \<longleftrightarrow> xs \<noteq> [] \<and> P (hd xs)"
  by (cases xs) simp_all

lemma dropWhile_id: "xs = [] \<or> \<not> P (hd xs) \<Longrightarrow> dropWhile P xs = xs"
  by (cases xs) auto

lemma toNumber_not_NaN [simp]: "toNumber v \<noteq> NaN"
  by (simp add: toNumber_def)

lemma fst_scanUnsigned_finite:
  "take 8 u \<noteq> ''Infinity'' \<Longrightarrow>
   fst (scanUnsigned u) \<noteq> NaN \<longleftrightarrow>
     takeWhile isDigit u \<noteq> [] \<or>
     (dropWhile isDigit u \<noteq> [] \<and> hd (dropWhile isDigit u) = CHR ''.'' \<and>
      takeWhile isDigit (tl (dropWhile isDigit u)) \<noteq> [])"
  by (simp add: scanUnsigned_def Let_def split_beta)

lemma scanUnsigned_NaN_iff:
  "fst (scanUnsigned u) \<noteq> NaN \<longleftrightarrow>
     (u \<noteq> [] \<and> isDigit (hd u)) \<or>
     (2 \<le> length u \<and> u ! 0 = CHR ''.'' \<and> isDigit (u ! 1)) \<or>
     take 8 u = ''Infinity''"
proof (cases "take 8 u = ''Infinity''")
  case True
  then show ?thesis by (simp add: scanUnsigned_def)
next
  case False
  have nd: "\<not> isDigit (CHR ''.'')" by (simp add: isDigit_def)
  show ?thesis
  proof (cases "u \<noteq> [] \<and> isDigit (hd u)")
    case True
    then show ?thesis
      using False by (simp add: fst_scanUnsigned_finite takeWhile_nonempty)
  next
    case nodigit: False
    then have d: "dropWhile isDigit u = u"
      by (intro dropWhile_id) simp
    from nodigit have t: "takeWhile isDigit u = []"
      using takeWhile_nonempty [of isDigit u] by blast
    have "(u \<noteq> [] \<and> hd u = CHR ''.'' \<and> tl u \<noteq> [] \<and> isDigit (hd (tl u)))
          \<longleftrightarrow> (2 \<le> length u \<and> u ! 0 = CHR ''.'' \<and> isDigit (u ! 1))"
    proof (cases u)
      case Nil
      then show ?thesis by simp
    next
      case (Cons c r)
      then show ?thesis by (cases r) simp_all
    qed
    then show ?thesis
      using False nodigit by (auto simp: fst_scanUnsigned_finite d t takeWhile_nonempty)
  qed
qed

lemma uminus_NaN_iff: "- v = NaN \<longleftrightarrow> v = NaN"
  by (cases v) (simp_all add: uminus_jsnum_def)

lemma scanSigned_NaN_iff: "fst (scanSigned t) \<noteq> NaN \<longleftrightarrow> hasNumericPrefix t"
proof (cases t)
  case Nil
  then show ?thesis by (simp add: scanSigned_def hasNumericPrefix_def)
next
  case (Cons c r)
  have nd: "\<not> isDigit (CHR ''+'')" "\<not> isDigit (CHR ''-'')" by (simp_all add: isDigit_def)
  consider "c = CHR ''-''" | "c = CHR ''+''" | "c \<noteq> CHR ''-''" "c \<noteq> CHR ''+''" by blast
  then show ?thesis
  proof cases
    case 1
    then show ?thesis
      using scanUnsigned_NaN_iff [of r]
      by (auto simp: Cons scanSigned_def hasNumericPrefix_def split_beta uminus_NaN_iff)
  next
    case 2
    then show ?thesis
      using scanUnsigned_NaN_iff [of r]
      by (auto simp: Cons scanSigned_def hasNumericPrefix_def split_beta)
  next
    case 3
    then show ?thesis
      using scanUnsigned_NaN_iff [of t]
      by (auto simp: Cons scanSigned_def hasNumericPrefix_def)
  qed
qed

lemma parseFloat_NaN_iff:
  "parseFloat t \<noteq> NaN \<longleftrightarrow> hasNumericPrefix (dropWhile isWhiteSpace t)"
  by (simp add: parseFloat_def scanSigned_NaN_iff)

lemma parseFloat_empty: "parseFloat [] = NaN"
  by (simp add: parseFloat_def scanSigned_def)

subsection \<open>Splitting and trimming\<close>

lemma isWhiteSpace_isSeparator: "isWhiteSpace c \<Longrightarrow> isSeparator c"
  by (simp add: isSeparator_def)

lemma splitSeparators_nonempty: "splitSeparators s \<noteq> []"
  by (cases s) (simp_all split: list.splits)

lemma splitSeparators_token_append:
  assumes "\<forall>c\<in>set t. \<not> isSeparator c"
  shows "splitSeparators (t @ r) = (t @ hd (splitSeparators r)) # tl (splitSeparators r)"
  using assms
proof (induction t)
  case Nil
  show ?case using splitSeparators_nonempty [of r] by simp
next
  case (Cons c t)
  then show ?case by simp
qed

lemma dropWhile_append_keep:
  "ys \<noteq> [] \<Longrightarrow> \<not> P (hd ys) \<Longrightarrow> dropWhile P (xs @ ys) = dropWhile P xs @ ys"
  by (induction xs) (simp_all add: dropWhile_id)

lemma splitSeparators_run:
  assumes "s \<noteq> []" "isSeparatorRun s" "u = [] \<or> \<not> isSeparator (hd u)"
  shows "splitSeparators (s @ u) = [] # splitSeparators u"
proof -
  from assms(1) obtain c s' where s: "s = c # s'" by (cases s) auto
  with assms(2) have c: "isSeparator c" and s': "\<And>x. x \<in> set s' \<Longrightarrow> isSeparator x"
    by (simp_all add: isSeparatorRun_def)
  have "dropWhile isSeparator (s' @ u) = dropWhile isSeparator u"
    using s' by (rule dropWhile_append2)
  also have "\<dots> = u"
    using assms(3) by (rule dropWhile_id)
  finally show ?thesis
    using c by (simp add: s)
qed

lemma splitSeparators_only_run:
  assumes "isSeparatorRun s"
  shows "splitSeparators s = (if s = [] then [[]] else [[], []])"
proof (cases "s = []")
  case True
  then show ?thesis by simp
next
  case False
  from splitSeparators_run [OF False assms, of "[]"] False show ?thesis by simp
qed

lemma joinTokens_ends:
  assumes "isToken t" "\<forall>p\<in>set rest. isToken (snd p)"
  shows "joinTokens t rest \<noteq> [] \<and> hd (joinTokens t rest) = hd t \<and>
         \<not> isSeparator (last (joinTokens t rest))"
  using assms
proof (induction rest arbitrary: t)
  case Nil
  then show ?case by (simp add: isToken_def)
next
  case (Cons p rest)
  obtain s u where p: "p = (s, u)" by (cases p)
  from Cons.prems have u: "isToken u" and r: "\<forall>p\<in>set rest. isToken (snd p)"
    by (simp_all add: p)
  from Cons.IH [OF u r] Cons.prems(1) show ?case
    by (simp add: p isToken_def)
qed

lemma splitSeparators_joinTokens:
  assumes "isToken t"
    and "\<forall>p\<in>set rest. fst p \<noteq> [] \<and> isSeparatorRun (fst p) \<and> isToken (snd p)"
    and "isSeparatorRun post"
  shows "splitSeparators (joinTokens t rest @ post)
           = (t # map snd rest) @ (if post = [] then [] else [[]])"
  using assms(1,2)
proof (induction rest arbitrary: t)
  case Nil
  from Nil.prems(1) have "\<forall>c\<in>set t. \<not> isSeparator c" by (simp add: isToken_def)
  from splitSeparators_token_append [OF this, of post] show ?case
    by (simp add: splitSeparators_only_run [OF assms(3)])
next
  case (Cons p rest)
  obtain s u where p: "p = (s, u)" by (cases p)
  from Cons.prems have s: "s \<noteq> []" "isSeparatorRun s" and u: "isToken u"
    and r: "\<forall>p\<in>set rest. fst p \<noteq> [] \<and> isSeparatorRun (fst p) \<and> isToken (snd p)"
    by (simp_all add: p)
  from r have r': "\<forall>p\<in>set rest. isToken (snd p)" by simp
  let ?Y = "joinTokens u rest @ post"
  from joinTokens_ends [OF u r'] u have Y: "?Y = [] \<or> \<not> isSeparator (hd ?Y)"
    by (simp add: isToken_def)
  from Cons.prems(1) have t: "\<forall>c\<in>set t. \<not> isSeparator c" by (simp add: isToken_def)
  have "splitSeparators (joinTokens t (p # rest) @ post) = splitSeparators (t @ (s @ ?Y))"
    by (simp add: p)
  also have "\<dots> = (t @ hd (splitSeparators (s @ ?Y))) # tl (splitSeparators (s @ ?Y))"
    by (rule splitSeparators_token_append [OF t])
  also have "\<dots> = t # splitSeparators ?Y"
    by (simp add: splitSeparators_run [OF s Y])
  also have "\<dots> = (t # map snd (p # rest)) @ (if post = [] then [] else [[]])"
    by (simp add: Cons.IH [OF u r] p)
  finally show ?case .
qed

lemma trim_around:
  assumes "X \<noteq> []" "\<not> isWhiteSpace (hd X)" "\<not> isWhiteSpace (last X)"
  shows "trim (pre @ X @ post)
           = dropWhile isWhiteSpace pre @ X @ rev (dropWhile isWhiteSpace (rev post))"
proof -
  have "dropWhile isWhiteSpace (pre @ (X @ post)) = dropWhile isWhiteSpace pre @ (X @ post)"
    using assms(1,2) by (intro dropWhile_append_keep) simp_all
  moreover have "dropWhile isWhiteSpace (rev post @ (rev X @ rev (dropWhile isWhiteSpace pre)))
          = dropWhile isWhiteSpace (rev post) @ (rev X @ rev (dropWhile isWhiteSpace pre))"
    using assms(1,3) by (intro dropWhile_append_keep) (simp_all add: hd_rev)
  ultimately show ?thesis
    by (simp add: trim_def)
qed

lemma isSeparatorRun_dropWhile: "isSeparatorRun s \<Longrightarrow> isSeparatorRun (dropWhile P s)"
  using set_dropWhileD [of _ P s] by (auto simp: isSeparatorRun_def)

lemma isSeparatorRun_rev: "isSeparatorRun (rev s) = isSeparatorRun s"
  by (simp add: isSeparatorRun_def)

lemma isSeparatorRun_trim: "isSeparatorRun s \<Longrightarrow> isSeparatorRun (trim s)"
  by (simp add: trim_def isSeparatorRun_rev isSeparatorRun_dropWhile)

lemma numbers_of_tokens:
  assumes "\<forall>t\<in>set ts. isToken t"
  shows "filter (\<lambda>n. \<not> isNaN n) (map (\<lambda>p. parseFloat p) ts)
           = map parseFloat (filter hasNumericPrefix ts)"
  using assms
proof (induction ts)
  case Nil
  show ?case by simp
next
  case (Cons t ts)
  from Cons.prems have t: "isToken t" by simp
  then have "\<not> isWhiteSpace (hd t)" "t \<noteq> []"
    using isWhiteSpace_isSeparator [of "hd t"] by (auto simp: isToken_def)
  then have "dropWhile isWhiteSpace t = t"
    by (intro dropWhile_id) simp
  then have "\<not> isNaN (parseFloat t) \<longleftrightarrow> hasNumericPrefix t"
    using parseFloat_NaN_iff [of t] by (simp add: isNaN_def)
  with Cons show ?case by simp
qed

lemma numbers_append_empty:
  "filter (\<lambda>n. \<not> isNaN n) (map (\<lambda>p. parseFloat p) ((if a then [] else [[]]) @ ts @ (if b then [] else [[]])))
     = filter (\<lambda>n. \<not> isNaN n) (map (\<lambda>p. parseFloat p) ts)"
  by (simp add: parseFloat_empty isNaN_def)

lemma parseLine_separators_only:
  assumes "isSeparatorRun line"
  shows "parseLine line = []"
  using splitSeparators_only_run [OF isSeparatorRun_trim [OF assms]]
  by (simp add: parseLine_def parseFloat_empty isNaN_def)

lemma parseLine_joinTokens:
  assumes t: "isToken t"
    and rest: "\<forall>p\<in>set rest. fst p \<noteq> [] \<and> isSeparatorRun (fst p) \<and> isToken (snd p)"
    and pre: "isSeparatorRun pre" and post: "isSeparatorRun post"
  shows "parseLine (pre @ joinTokens t rest @ post)
           = map parseFloat (filter hasNumericPrefix (t # map snd rest))"
proof -
  let ?X = "joinTokens t rest"
  let ?pre = "dropWhile isWhiteSpace pre"
  let ?post = "rev (dropWhile isWhiteSpace (rev post))"
  from rest have rest': "\<forall>p\<in>set rest. isToken (snd p)" by simp
  from joinTokens_ends [OF t rest'] t
  have X: "?X \<noteq> []" "\<not> isSeparator (hd ?X)" "\<not> isSeparator (last ?X)"
    by (simp_all add: isToken_def)
  then have ws: "\<not> isWhiteSpace (hd ?X)" "\<not> isWhiteSpace (last ?X)"
    using isWhiteSpace_isSeparator by blast+
  have pre': "isSeparatorRun ?pre"
    using pre by (rule isSeparatorRun_dropWhile)
  have post': "isSeparatorRun ?post"
    using post by (simp add: isSeparatorRun_rev isSeparatorRun_dropWhile)
  have tr: "trim (pre @ ?X @ post) = ?pre @ (?X @ ?post)"
    using trim_around [OF X(1) ws] by simp
  have inner: "splitSeparators (?X @ ?post)
                 = (t # map snd rest) @ (if ?post = [] then [] else [[]])"
    by (rule splitSeparators_joinTokens [OF t rest post'])
  have hdX: "?X @ ?post = [] \<or> \<not> isSeparator (hd (?X @ ?post))"
    using X by simp
  have outer: "splitSeparators (?pre @ (?X @ ?post))
                 = (if ?pre = [] then [] else [[]]) @ splitSeparators (?X @ ?post)"
  proof (cases "?pre = []")
    case True
    show ?thesis by (simp only: True append_Nil simp_thms if_True)
  next
    case False
    from splitSeparators_run [OF False pre' hdX] False show ?thesis by simp
  qed
  have "parseLine (pre @ ?X @ post)
          = filter (\<lambda>n. \<not> isNaN n)
              (map (\<lambda>p. parseFloat p)
                 ((if ?pre = [] then [] else [[]]) @ (t # map snd rest)
                  @ (if ?post = [] then [] else [[]])))"
    unfolding parseLine_def tr outer inner by (simp add: Let_def)
  also have "\<dots> = filter (\<lambda>n. \<not> isNaN n) (map (\<lambda>p. parseFloat p) (t # map snd rest))"
    by (rule numbers_append_empty)
  also have "\<dots> = map parseFloat (filter hasNumericPrefix (t # map snd rest))"
    using t rest' by (intro numbers_of_tokens) simp
  finally show ?thesis .
qed

lemma validNumber_hasNumericPrefix: "validNumber t \<Longrightarrow> hasNumericPrefix t"
  by (simp add: validNumber_def scanSigned_NaN_iff)

lemma token_parseFloat_iff:
  assumes "isToken t"
  shows "hasNumericPrefix t \<longleftrightarrow> parseFloat t \<noteq> NaN"
proof -
  from assms have "\<not> isWhiteSpace (hd t)"
    using isWhiteSpace_isSeparator [of "hd t"] by (auto simp: isToken_def)
  then have "dropWhile isWhiteSpace t = t"
    by (intro dropWhile_id) simp
  then show ?thesis
    using parseFloat_NaN_iff [of t] by simp
qed

lemma parseLine_example1: "parseLine ''a,1,b,2'' = [Finite 1, Finite 2]"
  by (simp add: parseLine_def trim_def isWhiteSpace_def isSeparator_def parseFloat_def
      scanSigned_def scanUnsigned_def scanExponent_def isDigit_def digitsValue_def isNaN_def toNumber_def
      Let_def)

lemma parseLine_example2:
  "parseLine (''1,2  3'' @ [CHR 0x09] @ ''4'') = [Finite 1, Finite 2, Finite 3, Finite 4]"
  by (simp add: parseLine_def trim_def isWhiteSpace_def isSeparator_def parseFloat_def
      scanSigned_def scanUnsigned_def scanExponent_def isDigit_def digitsValue_def isNaN_def toNumber_def
      Let_def)

lemma joinTokens_Cons: "joinTokens (c # t) rest = c # joinTokens t rest"
  by (cases rest) auto

lemma line_decomposition:
  "isSeparatorRun line \<or>
   (\<exists>pre t rest post.
      line = pre @ joinTokens t rest @ post \<and> isToken t \<and>
      (\<forall>p\<in>set rest. fst p \<noteq> [] \<and> isSeparatorRun (fst p) \<and> isToken (snd p)) \<and>
      isSeparatorRun pre \<and> isSeparatorRun post)"
proof (induction line)
  case Nil
  show ?case by (simp add: isSeparatorRun_def)
next
  case (Cons c l)
  show ?case
  proof (cases "isSeparatorRun l")
    case run: True
    show ?thesis
    proof (cases "isSeparator c")
      case True
      with run show ?thesis by (simp add: isSeparatorRun_def)
    next
      case False
      have "c # l = [] @ joinTokens [c] [] @ l" by simp
      moreover have "isToken [c]" using False by (simp add: isToken_def)
      moreover have "isSeparatorRun []" by (simp add: isSeparatorRun_def)
      ultimately show ?thesis using run
        by (intro disjI2 exI [of _ "[]"] exI [of _ "[c]"] exI [of _ l] conjI) simp_all
    qed
  next
    case False
    with Cons.IH obtain pre t rest post where
      l: "l = pre @ joinTokens t rest @ post" and t: "isToken t" and
      rest: "\<forall>p\<in>set rest. fst p \<noteq> [] \<and> isSeparatorRun (fst p) \<and> isToken (snd p)" and
      pre: "isSeparatorRun pre" and post: "isSeparatorRun post"
      by (elim disjE exE conjE) simp_all
    have e: "isSeparatorRun []" by (simp add: isSeparatorRun_def)
    show ?thesis
    proof (cases "isSeparator c")
      case True
      have "c # l = (c # pre) @ joinTokens t rest @ post" by (simp add: l)
      moreover have "isSeparatorRun (c # pre)"
        using True pre by (simp add: isSeparatorRun_def)
      ultimately show ?thesis using t rest post
        by (intro disjI2 exI [of _ "c # pre"] exI [of _ t] exI [of _ rest] exI [of _ post] conjI)
    next
      case nonsep: False
      show ?thesis
      proof (cases "pre = []")
        case True
        have "c # l = [] @ joinTokens (c # t) rest @ post"
          by (simp add: l True joinTokens_Cons)
        moreover have "isToken (c # t)"
          using nonsep t by (simp add: isToken_def)
        ultimately show ?thesis using e rest post
          by (intro disjI2 exI [of _ "[]"] exI [of _ "c # t"] exI [of _ rest] exI [of _ post] conjI)
      next
        case False
        have "c # l = [] @ joinTokens [c] ((pre, t) # rest) @ post"
          by (simp add: l)
        moreover have "isToken [c]"
          using nonsep by (simp add: isToken_def)
        moreover have "\<forall>p\<in>set ((pre, t) # rest).
                         fst p \<noteq> [] \<and> isSeparatorRun (fst p) \<and> isToken (snd p)"
          using False pre t rest by simp
        ultimately show ?thesis using e post
          by (intro disjI2 exI [of _ "[]"] exI [of _ "[c]"] exI [of _ "(pre, t) # rest"]
                    exI [of _ post] conjI)
      qed
    qed
  qed
qed

subsection \<open>The numbers of a line\<close>

text \<open>
  Claim C3 fails as stated: the token \<open>3px\<close> is not a valid number, yet it is not
  discarded, \<open>parseLine\<close> returns 3 for it; likewise \<open>1e\<close> gives 1 and \<open>0x10\<close> gives 0.
\<close>

theorem parseLine_prefix_counterexample:
  "\<not> validNumber ''3px'' \<and> parseLine ''3px'' = [Finite 3] \<and>
   \<not> validNumber ''1e'' \<and> \<not> validNumber ''0x10'' \<and>
   parseLine ''1e,0x10'' = [Finite 1, Finite 0]"
  by (simp add: validNumber_def parseLine_def trim_def isWhiteSpace_def isSeparator_def
      parseFloat_def scanSigned_def scanUnsigned_def scanExponent_def isDigit_def
      digitsValue_def isNaN_def toNumber_def Let_def)

text \<open>
  Claim C3, amended. Every line is a run of separators, for which \<open>parseLine\<close> returns
  nothing, or tokens joined by non-empty runs of separators (comma, tab, white space),
  with a possibly empty run before and after. For such a line \<open>parseLine\<close> returns, in
  the order of the tokens, what \<open>parseFloat\<close> gives for each token that has a numeric
  prefix; these are the tokens for which \<open>parseFloat\<close> is not \<open>NaN\<close>, every valid number is
  among them, and the tokens without a numeric prefix are dropped. In particular
  \<open>parseLine("a,1,b,2") = [1, 2]\<close> and \<open>parseLine("1,2  3\t4") = [1, 2, 3, 4]\<close>.
\<close>

theorem parseLine_tokens:
  "(isSeparatorRun line \<longrightarrow> parseLine line = []) \<and>
   (isToken t \<and>
    (\<forall>p\<in>set rest. fst p \<noteq> [] \<and> isSeparatorRun (fst p) \<and> isToken (snd p)) \<and>
    isSeparatorRun pre \<and> isSeparatorRun post \<longrightarrow>
      parseLine (pre @ joinTokens t rest @ post)
        = map parseFloat (filter hasNumericPrefix (t # map snd rest)) \<and>
      (\<forall>u\<in>set (t # map snd rest).
         (hasNumericPrefix u \<longleftrightarrow> parseFloat u \<noteq> NaN) \<and>
         (validNumber u \<longrightarrow> hasNumericPrefix u))) \<and>
   (isSeparatorRun line \<or>
    (\<exists>pre t rest post.
       line = pre @ joinTokens t rest @ post \<and> isToken t \<and>
       (\<forall>p\<in>set rest. fst p \<noteq> [] \<and> isSeparatorRun (fst p) \<and> isToken (snd p)) \<and>
       isSeparatorRun pre \<and> isSeparatorRun post)) \<and>
   parseLine ''a,1,b,2'' = [Finite 1, Finite 2] \<and>
   parseLine (''1,2  3'' @ [CHR 0x09] @ ''4'') = [Finite 1, Finite 2, Finite 3, Finite 4]"
proof (intro conjI)
  show "isSeparatorRun line \<longrightarrow> parseLine line = []"
    by (rule impI) (rule parseLine_separators_only)
  show "isToken t \<and>
    (\<forall>p\<in>set rest. fst p \<noteq> [] \<and> isSeparatorRun (fst p) \<and> isToken (snd p)) \<and>
    isSeparatorRun pre \<and> isSeparatorRun post \<longrightarrow>
      parseLine (pre @ joinTokens t rest @ post)
        = map parseFloat (filter hasNumericPrefix (t # map snd rest)) \<and>
      (\<forall>u\<in>set (t # map snd rest).
         (hasNumericPrefix u \<longleftrightarrow> parseFloat u \<noteq> NaN) \<and>
         (validNumber u \<longrightarrow> hasNumericPrefix u))"
  proof (intro impI, elim conjE, intro conjI ballI)
    assume t: "isToken t"
      and rest: "\<forall>p\<in>set rest. fst p \<noteq> [] \<and> isSeparatorRun (fst p) \<and> isToken (snd p)"
      and pre: "isSeparatorRun pre" and post: "isSeparatorRun post"
    show "parseLine (pre @ joinTokens t rest @ post)
        = map parseFloat (filter hasNumericPrefix (t # map snd rest))"
      by (rule parseLine_joinTokens [OF t rest pre post])
    fix u assume "u \<in> set (t # map snd rest)"
    with t rest have u: "isToken u" by auto
    show "hasNumericPrefix u \<longleftrightarrow> parseFloat u \<noteq> NaN"
      by (rule token_parseFloat_iff [OF u])
    show "validNumber u \<longrightarrow> hasNumericPrefix u"
      by (rule impI) (rule validNumber_hasNumericPrefix)
  qed
  show "isSeparatorRun line \<or>
    (\<exists>pre t rest post.
       line = pre @ joinTokens t rest @ post \<and> isToken t \<and>
       (\<forall>p\<in>set rest. fst p \<noteq> [] \<and> isSeparatorRun (fst p) \<and> isToken (snd p)) \<and>
       isSeparatorRun pre \<and> isSeparatorRun post)"
    by (rule line_decomposition)
  show "parseLine ''a,1,b,2'' = [Finite 1, Finite 2]"
    by (rule parseLine_example1)
  show "parseLine (''1,2  3'' @ [CHR 0x09] @ ''4'') = [Finite 1, Finite 2, Finite 3, Finite 4]"
    by (rule parseLine_example2)
qed

theorem parseLine_tokens_witness:
  "parseLine (''3px ,abc,-.5e1 '') = [Finite 3, Finite (- 5)] \<and> parseLine '' ,, '' = []"
proof -
  have tk: "isToken ''3px''" "isToken ''abc''" "isToken ''-.5e1''"
    by (simp_all add: isToken_def isSeparator_def isWhiteSpace_def)
  have sp: "isSeparatorRun '' ,''" "isSeparatorRun '',''" "isSeparatorRun '' ''" "isSeparatorRun ''''"
    by (simp_all add: isSeparatorRun_def isSeparator_def isWhiteSpace_def)
  have rest: "\<forall>p\<in>set [('' ,'', ''abc''), ('','', ''-.5e1'')].
                fst p \<noteq> [] \<and> isSeparatorRun (fst p) \<and> isToken (snd p)"
    using tk sp by simp
  have np: "hasNumericPrefix ''3px''" "\<not> hasNumericPrefix ''abc''" "hasNumericPrefix ''-.5e1''"
    by (simp_all add: hasNumericPrefix_def isDigit_def)
  have v: "parseFloat ''3px'' = Finite 3" "parseFloat ''-.5e1'' = Finite (- 5)"
    by (simp_all add: parseFloat_def isWhiteSpace_def scanSigned_def scanUnsigned_def
        scanExponent_def isDigit_def digitsValue_def uminus_jsnum_def toNumber_def Let_def)
  from parseLine_tokens [of "[]" "''3px''" "[('' ,'', ''abc''), ('','', ''-.5e1'')]" "''''" "'' ''",
      THEN conjunct2, THEN conjunct1, THEN mp, OF conjI [OF tk(1) conjI [OF rest conjI [OF sp(4) sp(3)]]],
      THEN conjunct1]
  have a: "parseLine (''3px ,abc,-.5e1 '') = [Finite 3, Finite (- 5)]"
    by (simp add: np v)
  have "isSeparatorRun '' ,, ''"
    by (simp add: isSeparatorRun_def isSeparator_def isWhiteSpace_def)
  from parseLine_tokens [of "'' ,, ''", THEN conjunct1, THEN mp, OF this]
  have b: "parseLine '' ,, '' = []" .
  from a b show ?thesis by (intro conjI)
qed

end
